theory Spec2Isabelle
  imports Complex_Main "HOL-Library.AList" "HOL-Library.Char_ord" "HOL-Library.List_Lexorder"
begin

section \<open>Values of the host language\<close>

text \<open>
  A JavaScript \<open>number\<close> is modelled as a real number or the value \<open>NaN\<close>.
  Finite values are idealised as reals (no rounding, no overflow, no signed zero); the
  infinities are not represented. Every comparison with \<open>NaN\<close> is false and every
  arithmetic operation with a \<open>NaN\<close> operand yields \<open>NaN\<close>, as in the language.
\<close>

datatype jsnum = NaN | Num real

fun jsmul :: "jsnum \<Rightarrow> jsnum \<Rightarrow> jsnum" where
  "jsmul (Num a) (Num b) = Num (a * b)"
| "jsmul _ _ = NaN"

fun jsadd :: "jsnum \<Rightarrow> jsnum \<Rightarrow> jsnum" where
  "jsadd (Num a) (Num b) = Num (a + b)"
| "jsadd _ _ = NaN"

text \<open>\<open>x > 0\<close> on numbers.\<close>

fun gt_zero :: "jsnum \<Rightarrow> bool" where
  "gt_zero (Num a) = (0 < a)"
| "gt_zero NaN = False"

text \<open>
  \<open>a / b\<close>. The quotient by zero is an infinity (or \<open>NaN\<close> for \<open>0 / 0\<close>) in the
  language; the model has no infinities and returns \<open>NaN\<close> there. The valuation code
  only divides under the guard \<open>b > 0\<close>.
\<close>

fun jsdiv :: "jsnum \<Rightarrow> jsnum \<Rightarrow> jsnum" where
  "jsdiv (Num a) (Num b) = (if b = 0 then NaN else Num (a / b))"
| "jsdiv _ _ = NaN"

text \<open>Truthiness of a number: neither zero nor \<open>NaN\<close>.\<close>

fun truthy_num :: "jsnum \<Rightarrow> bool" where
  "truthy_num (Num a) = (a \<noteq> 0)"
| "truthy_num NaN = False"

fun isNaN :: "jsnum \<Rightarrow> bool" where
  "isNaN NaN = True"
| "isNaN (Num _) = False"

section \<open>Data model of the route module\<close>

datatype AssetType = crypto | stock | commodity | real_estate | other

text \<open>
  The interface \<open>Asset\<close>. The fields \<open>id\<close> and \<open>type\<close> carry a prime because the
  plain names are taken. Optional fields are options; \<open>None\<close> is \<open>undefined\<close>.
\<close>

record Asset =
  id' :: string
  type' :: AssetType
  symbol :: string
  name :: string
  quantity :: jsnum
  purchaseValue :: "jsnum option"
  currentValue :: "jsnum option"

text \<open>The interface \<open>CalculatedAsset\<close> extends \<open>Asset\<close> by the two derived fields.\<close>

record CalculatedAsset = Asset +
  price :: "jsnum option"
  calculatedValue :: "jsnum option"

record PriceData =
  usd :: jsnum

text \<open>
  \<open>AllPrices\<close>: an object from asset id to \<open>PriceData\<close>, as an association list;
  \<open>currentPrices[k]\<close> is \<open>map_of currentPrices k\<close>.
\<close>

type_synonym AllPrices = "(string \<times> PriceData) list"

section \<open>Memo 1: the portfolio with calculated values\<close>

text \<open>
  The callback of \<open>portfolio.map\<close> in \<open>portfolioWithCalculatedValues\<close>. It yields the
  pair \<open>(price, calculatedValue)\<close>; the four branches are those of the source, in
  its order. A \<open>PriceData\<close> object is always truthy, so \<open>assetPriceData && ...\<close> tests
  presence of the entry.
\<close>

definition calculate :: "AllPrices \<Rightarrow> Asset \<Rightarrow> jsnum option \<times> jsnum option" where
  "calculate currentPrices asset =
     (let assetPriceData = map_of currentPrices (id' asset) in
      if assetPriceData \<noteq> None \<and>
         (type' asset = crypto \<or> type' asset = stock \<or> type' asset = commodity)
      then (let p = usd (the assetPriceData) in (Some p, Some (jsmul (quantity asset) p)))
      else if type' asset = real_estate \<and> currentValue asset \<noteq> None
      then (let cv = the (currentValue asset) in
            (if gt_zero (quantity asset) then Some (jsdiv cv (quantity asset)) else None,
             Some cv))
      else if type' asset = other
      then (let cv = (case purchaseValue asset of
                        Some pv \<Rightarrow> pv
                      | None \<Rightarrow> jsmul (quantity asset) (Num 50)) in
            (if gt_zero (quantity asset) then Some (jsdiv cv (quantity asset)) else None,
             Some cv))
      else (None, None))"

definition withCalculated :: "AllPrices \<Rightarrow> Asset \<Rightarrow> CalculatedAsset" where
  "withCalculated currentPrices asset =
     Asset.extend asset
       \<lparr> price = fst (calculate currentPrices asset),
         calculatedValue = snd (calculate currentPrices asset) \<rparr>"

definition portfolioWithCalculatedValues :: "AllPrices \<Rightarrow> Asset list \<Rightarrow> CalculatedAsset list" where
  "portfolioWithCalculatedValues currentPrices portfolio =
     map (withCalculated currentPrices) portfolio"

section \<open>Effect 3: total value and chart data\<close>

text \<open>
  One entry of the chart series. The loader labels an entry with
  \<open>new Date(t).toLocaleDateString()\<close>; the model keeps the timestamp \<open>t\<close> itself as
  the label, since the rendering of dates depends on the locale of the host.
\<close>

record ChartEntry =
  date :: real
  val :: jsnum

text \<open>\<open>asset.calculatedValue || 0\<close>.\<close>

fun valueOrZero :: "jsnum option \<Rightarrow> jsnum" where
  "valueOrZero None = Num 0"
| "valueOrZero (Some v) = (if truthy_num v then v else Num 0)"

definition newTotalValue :: "CalculatedAsset list \<Rightarrow> jsnum" where
  "newTotalValue pwcv = foldl (\<lambda>sum asset. jsadd sum (valueOrZero (calculatedValue asset))) (Num 0) pwcv"

definition assetForChart :: "string \<Rightarrow> CalculatedAsset list \<Rightarrow> CalculatedAsset option" where
  "assetForChart chartAssetName pwcv =
     (if chartAssetName \<noteq> [] \<and> chartAssetName \<noteq> ''N/A'' \<and> chartAssetName \<noteq> ''Error''
      then find (\<lambda>a. id' a = chartAssetName) pwcv
      else None)"

definition clientChartData :: "string \<Rightarrow> CalculatedAsset list \<Rightarrow> ChartEntry list \<Rightarrow> ChartEntry list" where
  "clientChartData chartAssetName pwcv serverChartData =
     (case assetForChart chartAssetName pwcv of
        Some a \<Rightarrow>
          if length serverChartData > 0
          then map (\<lambda>entry. entry\<lparr> val := jsmul (val entry) (quantity a) \<rparr>) serverChartData
          else []
      | None \<Rightarrow> [])"

section \<open>JSON values and coercions\<close>

text \<open>
  A parsed JSON document. An object is an association list with distinct keys, in the
  order of insertion; \<open>obj[k]\<close> is \<open>map_of\<close> of it. JSON numbers are finite.
\<close>

datatype json =
    JNull
  | JBool bool
  | JNum real
  | JStr string
  | JArr "json list"
  | JObj "(string \<times> json) list"

text \<open>Truthiness of a JSON value, as \<open>if (v)\<close>, \<open>v && ...\<close> and \<open>v || ...\<close> test it.\<close>

fun truthy :: "json \<Rightarrow> bool" where
  "truthy JNull = False"
| "truthy (JBool b) = b"
| "truthy (JNum r) = (r \<noteq> 0)"
| "truthy (JStr s) = (s \<noteq> [])"
| "truthy (JArr _) = True"
| "truthy (JObj _) = True"

text \<open>
  \<open>v[k]\<close> for a key \<open>k\<close> that is neither an index nor the name of a built-in
  property (the keys read by this program are \<open>"Global Quote"\<close>, \<open>"05. price"\<close>,
  \<open>"price"\<close>): only an object can hold it. Reading a property of \<open>null\<close> throws a
  TypeError, which callers handle before they call \<open>getProp\<close>.
\<close>

fun getProp :: "json \<Rightarrow> string \<Rightarrow> json option" where
  "getProp (JObj kvs) k = map_of kvs k"
| "getProp _ k = None"

text \<open>\<open>k in v\<close> behind the guard \<open>typeof v === 'object' && v !== null\<close>.\<close>

fun hasKey :: "string \<Rightarrow> json \<Rightarrow> bool" where
  "hasKey k (JObj kvs) = (map_of kvs k \<noteq> None)"
| "hasKey k _ = False"

subsection \<open>parseFloat\<close>

definition isWhiteSpace :: "char \<Rightarrow> bool" where
  "isWhiteSpace c = (c \<in> set [CHR '' '', CHR 0x09, CHR 0x0A, CHR 0x0B, CHR 0x0C, CHR 0x0D, CHR 0xA0])"

definition digitVal :: "char \<Rightarrow> nat option" where
  "digitVal c = map_of (zip ''0123456789'' [0, 1, 2, 3, 4, 5, 6, 7, 8, 9]) c"

definition isDigit :: "char \<Rightarrow> bool" where
  "isDigit c = (digitVal c \<noteq> None)"

definition digitsVal :: "string \<Rightarrow> nat" where
  "digitsVal ds = foldl (\<lambda>acc c. 10 * acc + the (digitVal c)) 0 ds"

text \<open>
  The exponent part after the mantissa: \<open>e\<close> or \<open>E\<close>, an optional sign and at
  least one digit; anything else is no exponent. The result is the factor to multiply by.
\<close>

definition exponentFactor :: "string \<Rightarrow> real" where
  "exponentFactor s =
     (case s of
        [] \<Rightarrow> 1
      | c # r \<Rightarrow>
          if c = CHR ''e'' \<or> c = CHR ''E'' then
            (case r of
               [] \<Rightarrow> 1
             | d # r' \<Rightarrow>
                 if d = CHR ''-'' then
                   (if takeWhile isDigit r' = [] then 1
                    else 1 / 10 ^ digitsVal (takeWhile isDigit r'))
                 else if d = CHR ''+'' then
                   (if takeWhile isDigit r' = [] then 1
                    else 10 ^ digitsVal (takeWhile isDigit r'))
                 else
                   (if takeWhile isDigit r = [] then 1
                    else 10 ^ digitsVal (takeWhile isDigit r)))
          else 1)"

text \<open>An unsigned decimal literal at the start of the string, or \<open>NaN\<close>.\<close>

definition unsignedDecimal :: "string \<Rightarrow> jsnum" where
  "unsignedDecimal s =
     (let ip = takeWhile isDigit s;
          r = dropWhile isDigit s;
          hasDot = (r \<noteq> [] \<and> hd r = CHR ''.'');
          fp = (if hasDot then takeWhile isDigit (tl r) else []);
          r' = (if hasDot then dropWhile isDigit (tl r) else r)
      in if ip = [] \<and> fp = [] then NaN
         else Num ((real (digitsVal ip) + real (digitsVal fp) / 10 ^ length fp)
                   * exponentFactor r'))"

text \<open>
  \<open>parseFloat\<close> of a string: leading white space is skipped, then the longest prefix
  that is a decimal literal is read and the rest ignored. The literal \<open>Infinity\<close> has no
  counterpart in \<open>jsnum\<close>, nor has rounding to the nearest float.
\<close>

definition parseFloatStr :: "string \<Rightarrow> jsnum" where
  "parseFloatStr s =
     (case dropWhile isWhiteSpace s of
        [] \<Rightarrow> NaN
      | c # r \<Rightarrow>
          if c = CHR ''-'' then jsmul (Num (- 1)) (unsignedDecimal r)
          else if c = CHR ''+'' then unsignedDecimal r
          else unsignedDecimal (c # r))"

text \<open>
  \<open>parseFloat\<close> of any JSON value converts it to a string first: a number reads back
  as itself, \<open>null\<close>, booleans and objects give text that is no number, and an array
  gives its elements joined by commas, so only its first element counts.
\<close>

fun parseFloat :: "json \<Rightarrow> jsnum" where
  "parseFloat (JNum r) = Num r"
| "parseFloat (JStr s) = parseFloatStr s"
| "parseFloat JNull = NaN"
| "parseFloat (JBool _) = NaN"
| "parseFloat (JObj _) = NaN"
| "parseFloat (JArr []) = NaN"
| "parseFloat (JArr (x # _)) = parseFloat x"

text \<open>\<open>JSON.stringify\<close> of a number: \<open>NaN\<close> is written as \<open>null\<close>.\<close>

fun numToJson :: "jsnum \<Rightarrow> json" where
  "numToJson (Num r) = JNum r"
| "numToJson NaN = JNull"

section \<open>Strings\<close>

text \<open>
  Characters are code units below 256; \<open>toUpperCase\<close> and \<open>toLowerCase\<close> are
  modelled on the ASCII letters and leave every other character as it is.
\<close>

definition toUpperChar :: "char \<Rightarrow> char" where
  "toUpperChar c =
     (case map_of (zip ''abcdefghijklmnopqrstuvwxyz'' ''ABCDEFGHIJKLMNOPQRSTUVWXYZ'') c of
        Some u \<Rightarrow> u
      | None \<Rightarrow> c)"

definition toUpperCase :: "string \<Rightarrow> string" where
  "toUpperCase s = map toUpperChar s"

definition toLowerChar :: "char \<Rightarrow> char" where
  "toLowerChar c =
     (case map_of (zip ''ABCDEFGHIJKLMNOPQRSTUVWXYZ'' ''abcdefghijklmnopqrstuvwxyz'') c of
        Some l \<Rightarrow> l
      | None \<Rightarrow> c)"

definition toLowerCase :: "string \<Rightarrow> string" where
  "toLowerCase s = map toLowerChar s"

text \<open>\<open>xs.join(',')\<close>.\<close>

fun joinComma :: "string list \<Rightarrow> string" where
  "joinComma [] = []"
| "joinComma [x] = x"
| "joinComma (x # y # r) = x @ '','' @ joinComma (y # r)"

text \<open>\<open>s.split(',')\<close>: the empty string splits into one empty piece.\<close>

fun splitComma :: "string \<Rightarrow> string list" where
  "splitComma [] = [[]]"
| "splitComma (c # cs) =
     (if c = CHR '','' then [] # splitComma cs
      else (case splitComma cs of
              w # ws \<Rightarrow> (c # w) # ws
            | [] \<Rightarrow> [[c]]))"

definition trim :: "string \<Rightarrow> string" where
  "trim s = rev (dropWhile isWhiteSpace (rev (dropWhile isWhiteSpace s)))"

text \<open>The decimal numeral of a natural number, as in a template string.\<close>

function showNat :: "nat \<Rightarrow> string" where
  "showNat n =
     (if n < 10 then [''0123456789'' ! n]
      else showNat (n div 10) @ [''0123456789'' ! (n mod 10)])"
  by pat_completeness auto
termination
  by (relation "measure id") auto

declare showNat.simps [simp del]

subsection \<open>Conversion to a number, and indexing\<close>

text \<open>
  What remains of a string after the exponent part, and after the longest unsigned
  decimal literal, at its start: the counterparts of \<open>exponentFactor\<close> and
  \<open>unsignedDecimal\<close> that tell where the literal ends.
\<close>

definition exponentRest :: "string \<Rightarrow> string" where
  "exponentRest s =
     (case s of
        [] \<Rightarrow> []
      | c # r \<Rightarrow>
          if c = CHR ''e'' \<or> c = CHR ''E'' then
            (case r of
               [] \<Rightarrow> s
             | d # r' \<Rightarrow>
                 if d = CHR ''-'' \<or> d = CHR ''+'' then
                   (if takeWhile isDigit r' = [] then s else dropWhile isDigit r')
                 else
                   (if takeWhile isDigit r = [] then s else dropWhile isDigit r))
          else s)"

definition decimalRest :: "string \<Rightarrow> string" where
  "decimalRest s =
     (let ip = takeWhile isDigit s;
          r = dropWhile isDigit s;
          hasDot = (r \<noteq> [] \<and> hd r = CHR ''.'');
          fp = (if hasDot then takeWhile isDigit (tl r) else []);
          r' = (if hasDot then dropWhile isDigit (tl r) else r)
      in if ip = [] \<and> fp = [] then s else exponentRest r')"

text \<open>
  The literals \<open>0x\<close>, \<open>0o\<close> and \<open>0b\<close> with their digits, which the conversion of a
  string to a number accepts and \<open>parseFloat\<close> does not.
\<close>

definition radixDigit :: "char \<Rightarrow> nat option" where
  "radixDigit c =
     map_of (zip ''0123456789abcdefABCDEF''
                 [0, 1, 2, 3, 4, 5, 6, 7, 8, 9, 10, 11, 12, 13, 14, 15, 10, 11, 12, 13, 14, 15]) c"

definition radixDigits :: "nat \<Rightarrow> string \<Rightarrow> jsnum option" where
  "radixDigits base ds =
     (if ds \<noteq> [] \<and> list_all (\<lambda>c. case radixDigit c of None \<Rightarrow> False | Some d \<Rightarrow> d < base) ds
      then Some (Num (real (foldl (\<lambda>acc c. base * acc + the (radixDigit c)) 0 ds)))
      else None)"

definition radixLiteral :: "string \<Rightarrow> jsnum option" where
  "radixLiteral s =
     (case s of
        z # x # ds \<Rightarrow>
          if z \<noteq> CHR ''0'' then None
          else if x = CHR ''x'' \<or> x = CHR ''X'' then radixDigits 16 ds
          else if x = CHR ''o'' \<or> x = CHR ''O'' then radixDigits 8 ds
          else if x = CHR ''b'' \<or> x = CHR ''B'' then radixDigits 2 ds
          else None
      | _ \<Rightarrow> None)"

text \<open>
  The conversion of a string to a number, as arithmetic applies it: white space around is
  dropped, the empty string is 0, and the whole of what remains must be one literal. The
  literal \<open>Infinity\<close> has no counterpart in \<open>jsnum\<close> and gives \<open>NaN\<close> here.
\<close>

definition stringToNumber :: "string \<Rightarrow> jsnum" where
  "stringToNumber s =
     (case trim s of
        [] \<Rightarrow> Num 0
      | c # r \<Rightarrow>
          (case radixLiteral (c # r) of
             Some v \<Rightarrow> v
           | None \<Rightarrow>
               if c = CHR ''-'' then
                 (if decimalRest r = [] then jsmul (Num (- 1)) (unsignedDecimal r) else NaN)
               else if c = CHR ''+'' then
                 (if decimalRest r = [] then unsignedDecimal r else NaN)
               else
                 (if decimalRest (c # r) = [] then unsignedDecimal (c # r) else NaN)))"

text \<open>
  The conversion of a JSON value to a number. An array is converted through the string of
  its elements joined by commas: the empty array is 0, an array of one element is the
  number of that element's string, and a longer array holds a comma and is \<open>NaN\<close>.
\<close>

fun toNumberJson :: "json \<Rightarrow> jsnum" where
  "toNumberJson JNull = Num 0"
| "toNumberJson (JBool b) = Num (if b then 1 else 0)"
| "toNumberJson (JNum r) = Num r"
| "toNumberJson (JStr s) = stringToNumber s"
| "toNumberJson (JObj _) = NaN"
| "toNumberJson (JArr []) = Num 0"
| "toNumberJson (JArr [JNull]) = Num 0"
| "toNumberJson (JArr [JBool _]) = NaN"
| "toNumberJson (JArr [JNum r]) = Num r"
| "toNumberJson (JArr [JStr s]) = stringToNumber s"
| "toNumberJson (JArr [JObj _]) = NaN"
| "toNumberJson (JArr [JArr ys]) = toNumberJson (JArr ys)"
| "toNumberJson (JArr (_ # _ # _)) = NaN"

text \<open>The same for a value that may be \<open>undefined\<close>.\<close>

definition toNumber :: "json option \<Rightarrow> jsnum" where
  "toNumber v = (case v of None \<Rightarrow> NaN | Some j \<Rightarrow> toNumberJson j)"

text \<open>
  \<open>v[i]\<close> for an index \<open>i\<close> and a value \<open>v\<close> other than \<open>null\<close>: an element of an
  array, a character of a string, the property of an object under the numeral of \<open>i\<close>,
  and \<open>undefined\<close> in every other case.
\<close>

fun getIndex :: "json \<Rightarrow> nat \<Rightarrow> json option" where
  "getIndex (JArr xs) i = (if i < length xs then Some (xs ! i) else None)"
| "getIndex (JStr s) i = (if i < length s then Some (JStr [s ! i]) else None)"
| "getIndex (JObj kvs) i = map_of kvs (showNat i)"
| "getIndex _ i = None"

section \<open>The holdings store\<close>

text \<open>
  One element of the stored array. \<open>saveClientPortfolio\<close> writes the identifying fields
  with their types; the three numeric fields are read back through truthiness tests and
  \<open>parseFloat\<close>, so they are kept as the JSON found under the key, \<open>None\<close> when the
  key is absent (\<open>JSON.stringify\<close> omits a field that is \<open>undefined\<close>).
\<close>

record StoredAsset =
  stored_id :: string
  stored_type :: AssetType
  stored_symbol :: string
  stored_name :: string
  stored_quantity :: "json option"
  stored_purchaseValue :: "json option"
  stored_currentValue :: "json option"

text \<open>
  The item under \<open>PORTFOLIO_STORAGE_KEY\<close>: absent (or the empty string), text on which
  \<open>JSON.parse\<close> or the following \<open>parsedData.map\<close> throws, or an array of elements.
\<close>

datatype Storage = NoItem | Malformed | Items "StoredAsset list"

text \<open>\<open>parseFloat(asset.quantity || "0")\<close>.\<close>

definition loadQuantity :: "json option \<Rightarrow> jsnum" where
  "loadQuantity q =
     (case q of
        None \<Rightarrow> parseFloat (JStr ''0'')
      | Some v \<Rightarrow> if truthy v then parseFloat v else parseFloat (JStr ''0''))"

text \<open>\<open>asset.f ? parseFloat(asset.f) : undefined\<close>, for \<open>purchaseValue\<close> and \<open>currentValue\<close>.\<close>

definition loadOptional :: "json option \<Rightarrow> jsnum option" where
  "loadOptional f =
     (case f of
        None \<Rightarrow> None
      | Some v \<Rightarrow> if truthy v then Some (parseFloat v) else None)"

definition loadAsset :: "StoredAsset \<Rightarrow> Asset" where
  "loadAsset a =
     \<lparr> id' = stored_id a, type' = stored_type a, symbol = stored_symbol a, name = stored_name a,
       quantity = loadQuantity (stored_quantity a),
       purchaseValue = loadOptional (stored_purchaseValue a),
       currentValue = loadOptional (stored_currentValue a) \<rparr>"

text \<open>\<open>getClientPortfolio\<close>, in the browser (\<open>window\<close> is defined).\<close>

definition getClientPortfolio :: "Storage \<Rightarrow> Asset list" where
  "getClientPortfolio storedData =
     (case storedData of
        NoItem \<Rightarrow> []
      | Malformed \<Rightarrow> []
      | Items parsedData \<Rightarrow> map loadAsset parsedData)"

text \<open>
  What \<open>JSON.stringify\<close> writes for one asset once \<open>price\<close> and \<open>calculatedValue\<close>
  are taken off by the destructuring pattern: the argument may carry any extension of
  \<open>Asset\<close>, and only the \<open>Asset\<close> fields are read.
\<close>

definition storeAsset :: "'a Asset_scheme \<Rightarrow> StoredAsset" where
  "storeAsset a =
     \<lparr> stored_id = id' a, stored_type = type' a, stored_symbol = symbol a, stored_name = name a,
       stored_quantity = Some (numToJson (quantity a)),
       stored_purchaseValue = map_option numToJson (purchaseValue a),
       stored_currentValue = map_option numToJson (currentValue a) \<rparr>"

text \<open>\<open>saveClientPortfolio\<close>, in the browser: the new content of the item.\<close>

definition saveClientPortfolio :: "'a Asset_scheme list \<Rightarrow> Storage" where
  "saveClientPortfolio portfolio = Items (map storeAsset portfolio)"

subsection \<open>Adding and removing a holding\<close>

text \<open>
  The component state the two handlers touch: the \<open>portfolio\<close> state
  (\<open>st_portfolio\<close>) and the stored item (\<open>st_storage\<close>).
\<close>

record ClientState =
  st_portfolio :: "Asset list"
  st_storage :: Storage

text \<open>
  The state updater of \<open>handleAddAsset\<close>, applied to the asset built from the form,
  with its write to the store. An id that is already present leaves the state and the
  store as they are (after an alert).
\<close>

definition addAsset :: "Asset \<Rightarrow> ClientState \<Rightarrow> ClientState" where
  "addAsset newAsset st =
     (let prevPortfolio = st_portfolio st in
      if list_ex (\<lambda>asset. id' asset = id' newAsset) prevPortfolio then st
      else (let updatedPortfolio = prevPortfolio @ [newAsset] in
            \<lparr> st_portfolio = updatedPortfolio, st_storage = saveClientPortfolio updatedPortfolio \<rparr>))"

text \<open>\<open>handleRemoveAsset\<close>: its state updater, with the write to the store.\<close>

definition handleRemoveAsset :: "string \<Rightarrow> ClientState \<Rightarrow> ClientState" where
  "handleRemoveAsset assetId st =
     (let updatedPortfolio = filter (\<lambda>asset. id' asset \<noteq> assetId) (st_portfolio st) in
      \<lparr> st_portfolio = updatedPortfolio, st_storage = saveClientPortfolio updatedPortfolio \<rparr>)"

text \<open>
  Effect 1: on mount the portfolio is read from the store, which is left as it is.
\<close>

definition mounted :: "Storage \<Rightarrow> ClientState" where
  "mounted storedData = \<lparr> st_portfolio = getClientPortfolio storedData, st_storage = storedData \<rparr>"

subsection \<open>The form of \<open>handleAddAsset\<close>\<close>

text \<open>
  The fields of the submitted form, \<open>None\<close> when \<open>formData.get\<close> yields \<open>null\<close>.
  The type comes from a selection among the five kinds.
\<close>

record AssetForm =
  form_id :: "string option"
  form_type :: "AssetType option"
  form_name :: "string option"
  form_symbol :: "string option"
  form_quantity :: "string option"
  form_purchaseValue :: "string option"
  form_currentValue :: "string option"

definition typeName :: "AssetType \<Rightarrow> string" where
  "typeName t =
     (case t of
        crypto \<Rightarrow> ''crypto''
      | stock \<Rightarrow> ''stock''
      | commodity \<Rightarrow> ''commodity''
      | real_estate \<Rightarrow> ''real_estate''
      | other \<Rightarrow> ''other'')"

text \<open>A form field as a string, \<open>null\<close> and the empty string being both falsy.\<close>

definition fieldText :: "string option \<Rightarrow> string" where
  "fieldText f = (case f of None \<Rightarrow> [] | Some s \<Rightarrow> s)"

text \<open>
  The asset that \<open>handleAddAsset\<close> builds from the form, \<open>None\<close> when it returns after
  an alert; \<open>now\<close> is the value of \<open>Date.now()\<close>.
\<close>

definition newAssetOfForm :: "AssetForm \<Rightarrow> nat \<Rightarrow> Asset option" where
  "newAssetOfForm form now =
     (let rawId = fieldText (form_id form);
          qty = parseFloatStr (if fieldText (form_quantity form) \<noteq> []
                               then fieldText (form_quantity form) else ''0'');
          purchase = (if fieldText (form_purchaseValue form) \<noteq> []
                      then Some (parseFloatStr (fieldText (form_purchaseValue form))) else None);
          manualCurrentValue = (if fieldText (form_currentValue form) \<noteq> []
                      then Some (parseFloatStr (fieldText (form_currentValue form))) else None)
      in if fieldText (form_name form) = [] \<or> fieldText (form_symbol form) = []
            \<or> form_type form = None \<or> isNaN qty
         then None
         else (let ty = the (form_type form);
                   stdId = (if rawId \<noteq> [] then
                              (if ty = crypto then toLowerCase (trim rawId)
                               else if ty = stock \<or> ty = commodity then toUpperCase (trim rawId)
                               else trim rawId)
                            else rawId)
               in if rawId \<noteq> [] \<and> ty = commodity \<and> stdId \<noteq> ''XAU'' \<and> stdId \<noteq> ''XAG''
                  then None
                  else (let requiresFetchId =
                              (ty = crypto \<or> ty = stock
                               \<or> (ty = commodity \<and> (stdId = ''XAU'' \<or> stdId = ''XAG'')))
                        in if stdId = [] \<and> requiresFetchId then None
                           else Some
                             \<lparr> id' = (if stdId = []
                                         \<and> (ty = real_estate \<or> ty = other \<or> ty = commodity)
                                      then ''asset-'' @ typeName ty @ ''-'' @ showNat now
                                      else stdId),
                               type' = ty,
                               symbol = fieldText (form_symbol form),
                               name = fieldText (form_name form),
                               quantity = qty,
                               purchaseValue = purchase,
                               currentValue = (if ty = real_estate then manualCurrentValue
                                               else None) \<rparr>)))"

text \<open>\<open>handleAddAsset\<close>: validation, then the state updater.\<close>

definition handleAddAsset :: "AssetForm \<Rightarrow> nat \<Rightarrow> ClientState \<Rightarrow> ClientState" where
  "handleAddAsset form now st =
     (case newAssetOfForm form now of
        None \<Rightarrow> st
      | Some newAsset \<Rightarrow> addAsset newAsset st)"

section \<open>The network and the price adapters\<close>

text \<open>
  What \<open>fetch(url)\<close> settles to: the promise rejects, or it resolves to a response
  with its \<open>ok\<close> flag and its body as \<open>response.json()\<close> reads it (\<open>None\<close> when the
  body is not JSON and \<open>json()\<close> rejects). A network answers a URL; a URL
  requested twice within one refresh gets the same answer.
\<close>

datatype 'b response = FetchFailed | Response bool "'b option"

type_synonym network = "string \<Rightarrow> json response"

text \<open>What an adapter does that can be observed from outside, in order.\<close>

datatype event = Delay nat | Request string

text \<open>
  The exceptions of the adapters and of the loader; the messages are only logged.
  \<open>TypeError\<close> is what reading a property of \<open>null\<close> or \<open>undefined\<close>, or calling
  what is no function, throws.
\<close>

datatype error = NetworkError | HttpError | JsonError | TypeError

text \<open>\<open>results[k] = v\<close> on an object is \<open>AList.update k v results\<close>.\<close>

subsection \<open>Crypto adapter\<close>

definition coingecko_API_BASE_URL :: string where
  "coingecko_API_BASE_URL = ''https://api.coingecko.com/api/v3''"

definition cryptoPricesUrl :: "string list \<Rightarrow> string" where
  "cryptoPricesUrl ids =
     coingecko_API_BASE_URL @ ''/simple/price?ids='' @ joinComma ids @ ''&vs_currencies=usd''"

text \<open>
  \<open>fetchCryptoPrices\<close>: every exception inside the \<open>try\<close> block is logged and thrown
  again; a body that parses is returned as it is.
\<close>

definition fetchCryptoPrices :: "network \<Rightarrow> string list \<Rightarrow> error + json" where
  "fetchCryptoPrices net ids =
     (if ids = [] then Inr (JObj [])
      else (case net (cryptoPricesUrl ids) of
              FetchFailed \<Rightarrow> Inl NetworkError
            | Response ok body \<Rightarrow>
                if \<not> ok then Inl HttpError
                else (case body of
                        None \<Rightarrow> Inl JsonError
                      | Some data \<Rightarrow> Inr data)))"

subsection \<open>History source\<close>

definition cryptoHistoryUrl :: "string \<Rightarrow> nat \<Rightarrow> string" where
  "cryptoHistoryUrl i days =
     coingecko_API_BASE_URL @ ''/coins/'' @ i @ ''/market_chart?vs_currency=usd&days=''
       @ showNat days @ ''&interval=daily''"

text \<open>
  The value of \<open>pr[pr.length - 1]\<close> when \<open>pr.length > 0\<close> holds, for a truthy \<open>pr\<close>:
  \<open>None\<close> when the test fails (also for a value without \<open>length\<close>), and otherwise the
  element, which is \<open>undefined\<close> when nothing is stored there. An object that is no array
  has the \<open>length\<close> it stores under that key; a whole number is written in decimal digits
  to name the element, and a length that is no whole number names none.
\<close>

fun lastOf :: "json \<Rightarrow> json option option" where
  "lastOf (JArr xs) = (if xs = [] then None else Some (Some (last xs)))"
| "lastOf (JStr s) = (if s = [] then None else Some (Some (JStr [last s])))"
| "lastOf (JObj kvs) =
     (case toNumber (map_of kvs ''length'') of
        NaN \<Rightarrow> None
      | Num l \<Rightarrow>
          if 0 < l then
            Some (if l = real (nat \<lfloor>l\<rfloor>) then map_of kvs (showNat (nat \<lfloor>l\<rfloor> - 1)) else None)
          else None)"
| "lastOf _ = None"

text \<open>
  \<open>data[k]?.pop()\<close> on the entries of \<open>data\<close>: nothing for an absent or \<open>null\<close> value,
  the array without its last element for an array, and a TypeError for any other value,
  which has no \<open>pop\<close> to call.
\<close>

definition popOptional :: "string \<Rightarrow> (string \<times> json) list \<Rightarrow> error + (string \<times> json) list" where
  "popOptional k kvs =
     (case map_of kvs k of
        None \<Rightarrow> Inr kvs
      | Some JNull \<Rightarrow> Inr kvs
      | Some (JArr ys) \<Rightarrow> Inr (AList.update k (JArr (butlast ys)) kvs)
      | Some _ \<Rightarrow> Inl TypeError)"

text \<open>
  The three \<open>pop\<close> calls, on a body whose \<open>prices\<close> is \<open>pr\<close>: \<open>data.prices.pop()\<close>
  throws unless \<open>pr\<close> is an array.
\<close>

definition popLast :: "(string \<times> json) list \<Rightarrow> json \<Rightarrow> error + json" where
  "popLast kvs pr =
     (case pr of
        JArr xs \<Rightarrow>
          (case popOptional ''market_caps'' (AList.update ''prices'' (JArr (butlast xs)) kvs) of
             Inl e \<Rightarrow> Inl e
           | Inr kvs' \<Rightarrow>
               (case popOptional ''total_volumes'' kvs' of
                  Inl e \<Rightarrow> Inl e
                | Inr kvs'' \<Rightarrow> Inr (JObj kvs'')))
      | _ \<Rightarrow> Inl TypeError)"

text \<open>
  What \<open>fetchCryptoHistory\<close> does with the parsed body, which is any JSON value:
  \<open>data.prices\<close> throws on \<open>null\<close> and is \<open>undefined\<close> on every value but an object;
  the last point is removed when its timestamp, converted to a number, is less than 23
  hours before \<open>now\<close>.
\<close>

definition dropPartialDay :: "real \<Rightarrow> json \<Rightarrow> error + json" where
  "dropPartialDay now data =
     (case data of
        JNull \<Rightarrow> Inl TypeError
      | JObj kvs \<Rightarrow>
          (case map_of kvs ''prices'' of
             None \<Rightarrow> Inr data
           | Some pr \<Rightarrow>
               if \<not> truthy pr then Inr data
               else (case lastOf pr of
                       None \<Rightarrow> Inr data
                     | Some None \<Rightarrow> Inl TypeError
                     | Some (Some lastPoint) \<Rightarrow>
                         if lastPoint = JNull then Inl TypeError
                         else (case toNumber (getIndex lastPoint 0) of
                                 NaN \<Rightarrow> Inr data
                               | Num lastTimestamp \<Rightarrow>
                                   if now - lastTimestamp < 23 * 60 * 60 * 1000
                                   then popLast kvs pr
                                   else Inr data)))
      | _ \<Rightarrow> Inr data)"

text \<open>\<open>fetchCryptoHistory\<close>; \<open>now\<close> is the value of \<open>Date.now()\<close>.\<close>

definition fetchCryptoHistory :: "network \<Rightarrow> real \<Rightarrow> string \<Rightarrow> nat \<Rightarrow> error + json" where
  "fetchCryptoHistory hnet now i days =
     (case hnet (cryptoHistoryUrl i days) of
        FetchFailed \<Rightarrow> Inl NetworkError
      | Response ok body \<Rightarrow>
          if \<not> ok then Inl HttpError
          else (case body of
                  None \<Rightarrow> Inl JsonError
                | Some data \<Rightarrow> dropPartialDay now data))"

subsection \<open>Equity adapter\<close>

definition ALPHA_VANTAGE_API_KEY :: string where
  "ALPHA_VANTAGE_API_KEY = ''7GAGSE3KBU6OX1RC''"

definition alphaVantage_API_BASE_URL :: string where
  "alphaVantage_API_BASE_URL = ''https://www.alphavantage.co/query''"

definition stockUrl :: "string \<Rightarrow> string" where
  "stockUrl symb =
     alphaVantage_API_BASE_URL @ ''?function=GLOBAL_QUOTE&symbol='' @ symb
       @ ''&apikey='' @ ALPHA_VANTAGE_API_KEY"

definition isAlphaVantageError :: "json \<Rightarrow> bool" where
  "isAlphaVantageError response =
     (hasKey ''Error Message'' response \<or> hasKey ''Information'' response \<or> hasKey ''Note'' response)"

text \<open>
  \<open>fetchWithDelay\<close>: wait 13000 ms, then request; a response that is not ok throws,
  as does a \<open>fetch\<close> or a \<open>json()\<close> that rejects.
\<close>

definition fetchWithDelay :: "network \<Rightarrow> string \<Rightarrow> (error + json) \<times> event list" where
  "fetchWithDelay net url =
     ((case net url of
         FetchFailed \<Rightarrow> Inl NetworkError
       | Response ok body \<Rightarrow>
           if \<not> ok then Inl HttpError
           else (case body of
                   None \<Rightarrow> Inl JsonError
                 | Some data \<Rightarrow> Inr data)),
      [Delay 13000, Request url])"

text \<open>
  What one iteration of the loop of \<open>fetchStockPrices\<close> stores for its symbol, given the
  parsed body: nothing on a vendor message, nothing when reading \<open>data["Global Quote"]\<close>
  throws on \<open>null\<close> (the \<open>catch\<close> of the iteration takes it), nothing without a truthy
  quote and a truthy price field, nothing when the price parses to \<open>NaN\<close>.
\<close>

definition stockQuote :: "json \<Rightarrow> jsnum option" where
  "stockQuote data =
     (if isAlphaVantageError data then None
      else if data = JNull then None
      else (case getProp data ''Global Quote'' of
              None \<Rightarrow> None
            | Some gq \<Rightarrow>
                if \<not> truthy gq then None
                else (case getProp gq ''05. price'' of
                        None \<Rightarrow> None
                      | Some p \<Rightarrow>
                          if \<not> truthy p then None
                          else (let pr = parseFloat p in
                                if \<not> isNaN pr then Some pr else None))))"

text \<open>The \<open>for\<close> loop of \<open>fetchStockPrices\<close> over the remaining symbols.\<close>

fun stockLoop :: "network \<Rightarrow> string list \<Rightarrow> AllPrices \<Rightarrow> AllPrices \<times> event list" where
  "stockLoop net [] results = (results, [])"
| "stockLoop net (symb # rest) results =
     (let fetched = fetchWithDelay net (stockUrl symb);
          results' = (case fst fetched of
                        Inl e \<Rightarrow> results
                      | Inr data \<Rightarrow>
                          (case stockQuote data of
                             None \<Rightarrow> results
                           | Some pr \<Rightarrow> AList.update symb \<lparr> usd = pr \<rparr> results));
          remaining = stockLoop net rest results'
      in (fst remaining, snd fetched @ snd remaining))"

definition fetchStockPrices :: "network \<Rightarrow> string list \<Rightarrow> AllPrices \<times> event list" where
  "fetchStockPrices net symbols =
     (if symbols = [] then ([], [])
      else if ALPHA_VANTAGE_API_KEY = ''YOUR_ALPHAVANTAGE_API_KEY'' \<or> ALPHA_VANTAGE_API_KEY = []
      then ([], [])
      else stockLoop net symbols [])"

subsection \<open>Commodity adapter\<close>

definition GOLDAPI_API_KEY :: string where
  "GOLDAPI_API_KEY = ''goldapi-1awqnsm8rxzcft-io''"

definition goldapi_API_BASE_URL :: string where
  "goldapi_API_BASE_URL = ''https://www.goldapi.io/api''"

definition supportedSymbols :: "string list" where
  "supportedSymbols = [''XAU'', ''XAG'']"

definition commodityUrl :: "string \<Rightarrow> string" where
  "commodityUrl upperSymbol = goldapi_API_BASE_URL @ ''/'' @ upperSymbol @ ''/USD''"

definition isGoldApiError :: "json \<Rightarrow> bool" where
  "isGoldApiError response = hasKey ''error'' response"

text \<open>
  What one iteration of the loop of \<open>fetchCommodityPrices\<close> stores, given the parsed
  body: the \<open>price\<close> field when it is a number and the body is no error payload.
\<close>

definition commodityQuote :: "json \<Rightarrow> jsnum option" where
  "commodityQuote data =
     (if isGoldApiError data then None
      else if truthy data then
        (case getProp data ''price'' of
           Some (JNum p) \<Rightarrow> Some (Num p)
         | _ \<Rightarrow> None)
      else None)"

text \<open>One request of the commodity loop: no delay precedes it.\<close>

definition commodityFetch :: "network \<Rightarrow> string \<Rightarrow> jsnum option \<times> event list" where
  "commodityFetch net url =
     ((case net url of
         FetchFailed \<Rightarrow> None
       | Response ok body \<Rightarrow>
           if \<not> ok then None
           else (case body of
                   None \<Rightarrow> None
                 | Some data \<Rightarrow> commodityQuote data)),
      [Request url])"

fun commodityLoop :: "network \<Rightarrow> string list \<Rightarrow> AllPrices \<Rightarrow> AllPrices \<times> event list" where
  "commodityLoop net [] results = (results, [])"
| "commodityLoop net (symb # rest) results =
     (let upperSymbol = toUpperCase symb;
          fetched = commodityFetch net (commodityUrl upperSymbol);
          results' = (case fst fetched of
                        None \<Rightarrow> results
                      | Some pr \<Rightarrow> AList.update upperSymbol \<lparr> usd = pr \<rparr> results);
          remaining = commodityLoop net rest results'
      in (fst remaining, snd fetched @ snd remaining))"

definition fetchCommodityPrices :: "network \<Rightarrow> string list \<Rightarrow> AllPrices \<times> event list" where
  "fetchCommodityPrices net symbols =
     (let symbolsToFetch = filter (\<lambda>s. toUpperCase s \<in> set supportedSymbols) symbols in
      if symbolsToFetch = [] then ([], [])
      else if GOLDAPI_API_KEY = [] \<or> take 8 GOLDAPI_API_KEY \<noteq> ''goldapi-'' then ([], [])
      else commodityLoop net symbolsToFetch [])"

section \<open>The loader\<close>

text \<open>
  The three search parameters of the request, \<open>None\<close> when a parameter is absent.
  The client passes them in a query string; the model hands them over as they are, which
  is what \<open>URL.searchParams\<close> returns for ids without characters that a URL reserves.
\<close>

record Query =
  cryptoIdsParam :: "string option"
  stockSymbolsParam :: "string option"
  commoditySymbolsParam :: "string option"

text \<open>\<open>param ? param.split(',').filter(id => id.trim() !== '') : []\<close>.\<close>

definition parseIds :: "string option \<Rightarrow> string list" where
  "parseIds param =
     (case param of
        None \<Rightarrow> []
      | Some p \<Rightarrow> if p = [] then [] else filter (\<lambda>i. trim i \<noteq> []) (splitComma p))"

text \<open>
  The own enumerable properties that an object spread \<open>{...v}\<close> copies: the entries of
  an object, the indexed elements of an array, the indexed characters of a string, and
  nothing for the other values.
\<close>

fun spread :: "json \<Rightarrow> (string \<times> json) list" where
  "spread (JObj kvs) = kvs"
| "spread (JArr xs) = zip (map showNat [0 ..< length xs]) xs"
| "spread (JStr s) = zip (map showNat [0 ..< length s]) (map (\<lambda>c. JStr [c]) s)"
| "spread _ = []"

text \<open>Copying properties into an object, later ones replacing earlier ones of the same key.\<close>

definition assign :: "(string \<times> 'v) list \<Rightarrow> (string \<times> 'v) list \<Rightarrow> (string \<times> 'v) list" where
  "assign target src = foldl (\<lambda>acc kv. AList.update (fst kv) (snd kv) acc) target src"

text \<open>A \<open>PriceData\<close> in the JSON of the response.\<close>

definition priceDataJson :: "PriceData \<Rightarrow> json" where
  "priceDataJson pd = JObj [(''usd'', numToJson (usd pd))]"

text \<open>
  One element of the loader's \<open>chartData\<close>: \<open>entry_date\<close> is \<open>entry[0]\<close>, which the
  loader turns into the label \<open>new Date(entry[0]).toLocaleDateString()\<close>, and
  \<open>entry_value\<close> is \<open>entry[1]\<close>; both are \<open>None\<close> when \<open>undefined\<close>.
\<close>

record LoaderChartEntry =
  entry_date :: "json option"
  entry_value :: "json option"

text \<open>The body of the loader's response as the client reads it, and the HTTP status.\<close>

record LoaderData =
  currentPrices :: "(string \<times> json) list"
  chartData :: "LoaderChartEntry list"
  chartAssetName :: string

text \<open>
  \<open>historyDataResult.prices.map(entry => ...)\<close> for a truthy \<open>historyDataResult\<close>: a
  TypeError unless \<open>prices\<close> is an array, and on an element that is \<open>null\<close>.
\<close>

definition chartOf :: "json \<Rightarrow> error + LoaderChartEntry list" where
  "chartOf historyDataResult =
     (case getProp historyDataResult ''prices'' of
        Some (JArr entries) \<Rightarrow>
          if list_ex (\<lambda>entry. entry = JNull) entries then Inl TypeError
          else Inr (map (\<lambda>entry. \<lparr> entry_date = getIndex entry 0,
                                    entry_value = getIndex entry 1 \<rparr>) entries)
      | _ \<Rightarrow> Inl TypeError)"

text \<open>
  \<open>loader\<close>. The four promises are awaited by \<open>Promise.all\<close> inside one \<open>try\<close>
  block: the equity and the commodity adapter never reject, and a rejection of the crypto
  adapter or of the history fetch reaches the \<open>catch\<close> block, which answers with the error
  state and status 500; so does a TypeError while the chart data are built.
\<close>

definition loader :: "network \<Rightarrow> network \<Rightarrow> real \<Rightarrow> Query \<Rightarrow> LoaderData \<times> nat" where
  "loader net hnet now q =
     (let cryptoIds = parseIds (cryptoIdsParam q);
          stockSymbols = parseIds (stockSymbolsParam q);
          commoditySymbols = parseIds (commoditySymbolsParam q);
          historyAssetId = (case cryptoIds of [] \<Rightarrow> None | i # _ \<Rightarrow> Some i);
          cryptoPricesPromise = fetchCryptoPrices net cryptoIds;
          stockPricesResult = fst (fetchStockPrices net stockSymbols);
          commodityPricesResult = fst (fetchCommodityPrices net commoditySymbols);
          historyPromise = (case historyAssetId of
                              Some i \<Rightarrow> map_sum (\<lambda>e. e) Some (fetchCryptoHistory hnet now i 90)
                            | None \<Rightarrow> Inr None)
      in case cryptoPricesPromise of
           Inl e \<Rightarrow> (\<lparr> currentPrices = [], chartData = [], chartAssetName = ''Error'' \<rparr>, 500)
         | Inr cryptoPricesResult \<Rightarrow>
             (case historyPromise of
                Inl e \<Rightarrow> (\<lparr> currentPrices = [], chartData = [], chartAssetName = ''Error'' \<rparr>, 500)
              | Inr historyDataResult \<Rightarrow>
                  (case (case historyDataResult of
                           Some h \<Rightarrow> if truthy h then chartOf h else Inr []
                         | None \<Rightarrow> Inr []) of
                     Inl e \<Rightarrow>
                       (\<lparr> currentPrices = [], chartData = [], chartAssetName = ''Error'' \<rparr>, 500)
                   | Inr chart \<Rightarrow>
                       (\<lparr> currentPrices =
                            assign (assign (assign []
                               (spread (if truthy cryptoPricesResult then cryptoPricesResult
                                        else JObj [])))
                               (map (\<lambda>kv. (fst kv, priceDataJson (snd kv))) stockPricesResult))
                               (map (\<lambda>kv. (fst kv, priceDataJson (snd kv)))
                                  commodityPricesResult),
                          chartData = chart,
                          chartAssetName = (case historyAssetId of
                                              Some i \<Rightarrow> i
                                            | None \<Rightarrow> ''N/A'') \<rparr>,
                        200))))"

section \<open>Effect 2: the refresh controller\<close>

datatype FetcherState = idle | loading | submitting

text \<open>
  The body of the effect, run when the portfolio or the fetcher state changes. The
  arguments are the portfolio, \<open>priceFetcher.state\<close>, \<open>priceFetcher.data\<close> (the result
  of the last completed load, if any) and the chart name of the initial loader data. The
  result is the query handed to \<open>priceFetcher.load\<close>, or \<open>None\<close> when no load is
  issued.

  \<open>Array.prototype.sort\<close> sorts its array in place and returns it: after
  \<open>cryptoIds.sort()\<close> the name \<open>cryptoIds\<close> denotes the sorted array, so
  \<open>neededChartName\<close>, which is computed later, reads the first element of the sorted
  array, whereas the query string, which is built earlier, lists the ids in portfolio
  order.
\<close>

definition effect2 :: "Asset list \<Rightarrow> FetcherState \<Rightarrow> LoaderData option \<Rightarrow> string \<Rightarrow> Query option" where
  "effect2 pf fetcherState fetcherData initialChartAssetName =
     (if length pf > 0 \<and> fetcherState = idle then
        (let cryptoIds = map id' (filter (\<lambda>asset. type' asset = crypto \<and> id' asset \<noteq> []) pf);
             stockSymbols = map id' (filter (\<lambda>asset. type' asset = stock \<and> id' asset \<noteq> []) pf);
             commoditySymbols = map id' (filter (\<lambda>asset. type' asset = commodity
                                   \<and> (id' asset = ''XAU'' \<or> id' asset = ''XAG'')) pf);
             query = \<lparr> cryptoIdsParam =
                         (if length cryptoIds > 0 then Some (joinComma cryptoIds) else None),
                       stockSymbolsParam =
                         (if length stockSymbols > 0 then Some (joinComma stockSymbols) else None),
                       commoditySymbolsParam =
                         (if length commoditySymbols > 0 then Some (joinComma commoditySymbols)
                          else None) \<rparr>;
             currentFetchedIds =
               joinComma (sort (map fst (case fetcherData of
                                           Some d \<Rightarrow> currentPrices d
                                         | None \<Rightarrow> [])));
             neededCryptoIds = sort cryptoIds;
             neededStockIds = sort stockSymbols;
             neededCommodityIds = sort commoditySymbols;
             neededIds = joinComma (sort (neededCryptoIds @ neededStockIds @ neededCommodityIds));
             currentChartName = (case fetcherData of
                                   Some d \<Rightarrow> chartAssetName d
                                 | None \<Rightarrow> initialChartAssetName);
             neededChartName = (case neededCryptoIds of [] \<Rightarrow> ''N/A'' | i # _ \<Rightarrow> i)
         in if fetcherData = None \<or> neededIds \<noteq> currentFetchedIds
               \<or> neededChartName \<noteq> currentChartName
            then Some query
            else None)
      else if fetcherState \<noteq> idle then None
      else (case fetcherData of
              Some d \<Rightarrow>
                if length (map fst (currentPrices d)) > 0
                then Some \<lparr> cryptoIdsParam = None, stockSymbolsParam = None,
                            commoditySymbolsParam = None \<rparr>
                else None
            | None \<Rightarrow> None))"

section \<open>Concrete holdings and networks\<close>

definition bitcoin2 :: Asset where
  "bitcoin2 = \<lparr> id' = ''bitcoin'', type' = crypto, symbol = ''BTC'', name = ''Bitcoin'',
      quantity = Num 2, purchaseValue = None, currentValue = None \<rparr>"

definition house :: "jsnum \<Rightarrow> Asset" where
  "house q = \<lparr> id' = ''asset-real_estate-1700000000000'', type' = real_estate, symbol = ''HOME'',
      name = ''Home'', quantity = q, purchaseValue = None, currentValue = Some (Num 300000) \<rparr>"

definition painting :: Asset where
  "painting = \<lparr> id' = ''asset-other-1700000000001'', type' = other, symbol = ''ART'',
      name = ''Painting'', quantity = Num 3, purchaseValue = None, currentValue = None \<rparr>"

definition gift :: Asset where
  "gift = \<lparr> id' = ''asset-other-1700000000002'', type' = other, symbol = ''GIFT'',
      name = ''Gift'', quantity = Num 1, purchaseValue = Some (Num 0), currentValue = None \<rparr>"

text \<open>The client state in which the store is in step with the portfolio.\<close>

definition storeOf :: "Asset list \<Rightarrow> ClientState" where
  "storeOf p = \<lparr> st_portfolio = p, st_storage = saveClientPortfolio p \<rparr>"

text \<open>The time an adapter spends waiting: the sum of its delays, in milliseconds.\<close>

fun totalDelay :: "event list \<Rightarrow> nat" where
  "totalDelay [] = 0"
| "totalDelay (Delay ms # evs) = ms + totalDelay evs"
| "totalDelay (Request url # evs) = totalDelay evs"

text \<open>A network on which the metal vendor answers with prices and every other request fails.\<close>

definition net_metals :: network where
  "net_metals url =
     (if url = commodityUrl ''XAU'' then Response True (Some (JObj [(''price'', JNum 2300)]))
      else if url = commodityUrl ''XAG'' then Response True (Some (JObj [(''price'', JNum 27)]))
      else FetchFailed)"

text \<open>
  A network on which the crypto vendor answers with status 500 for bitcoin and with a
  price that is no number for ethereum, the equity vendor prices AAPL and sends a
  rate-limit note for MSFT, and the metal vendor prices XAU and sends an error for XAG.
\<close>

definition net_crypto_bad :: network where
  "net_crypto_bad url =
     (if url = cryptoPricesUrl [''bitcoin''] then Response False None
      else if url = cryptoPricesUrl [''ethereum'']
      then Response True (Some (JObj [(''ethereum'', JObj [(''usd'', JStr ''n/a'')])]))
      else if url = stockUrl ''AAPL''
      then Response True (Some (JObj [(''Global Quote'', JObj [(''05. price'', JStr ''189.98'')])]))
      else if url = stockUrl ''MSFT''
      then Response True (Some (JObj [(''Note'', JStr ''API call frequency exceeded'')]))
      else if url = commodityUrl ''XAU'' then Response True (Some (JObj [(''price'', JNum 2300)]))
      else if url = commodityUrl ''XAG'' then Response True (Some (JObj [(''error'', JStr ''quota'')]))
      else FetchFailed)"

text \<open>
  A network on which the crypto vendor prices bitcoin and ethereum, the equity vendor prices
  AAPL and sends a rate-limit note for MSFT, and the metal vendor prices XAU and answers
  XAG with a status that is not ok.
\<close>

definition net_mixed :: network where
  "net_mixed url =
     (if url = cryptoPricesUrl [''bitcoin'']
      then Response True (Some (JObj [(''bitcoin'', JObj [(''usd'', JNum 50000)])]))
      else if url = cryptoPricesUrl [''ethereum'', ''bitcoin'']
      then Response True (Some (JObj [(''ethereum'', JObj [(''usd'', JNum 3000)]),
                                      (''bitcoin'', JObj [(''usd'', JNum 50000)])]))
      else if url = stockUrl ''AAPL''
      then Response True (Some (JObj [(''Global Quote'', JObj [(''05. price'', JStr ''189.98'')])]))
      else if url = stockUrl ''MSFT''
      then Response True (Some (JObj [(''Note'', JStr ''API call frequency exceeded'')]))
      else if url = commodityUrl ''XAU'' then Response True (Some (JObj [(''price'', JNum 2300)]))
      else if url = commodityUrl ''XAG'' then Response False None
      else FetchFailed)"

text \<open>
  A history source with two daily points, one that answers with an empty object, and one
  whose requests are all rejected.
\<close>

definition hnet_ok :: network where
  "hnet_ok url =
     (if url = cryptoHistoryUrl ''bitcoin'' 90 \<or> url = cryptoHistoryUrl ''ethereum'' 90
      then Response True (Some (JObj [(''prices'', JArr [JArr [JNum 86400000, JNum 100],
                                                          JArr [JNum 172800000, JNum 200]])]))
      else FetchFailed)"


definition hnet_down :: network where
  "hnet_down url = FetchFailed"

definition msft :: Asset where
  "msft = \<lparr> id' = ''MSFT'', type' = stock, symbol = ''MSFT'', name = ''Microsoft'',
      quantity = Num 3, purchaseValue = None, currentValue = None \<rparr>"

definition ethereum1 :: Asset where
  "ethereum1 = \<lparr> id' = ''ethereum'', type' = crypto, symbol = ''ETH'', name = ''Ether'',
      quantity = Num 1, purchaseValue = None, currentValue = None \<rparr>"

text \<open>A form that asks for two bitcoin, with blanks around the id.\<close>

definition bitcoinForm :: AssetForm where
  "bitcoinForm = \<lparr> form_id = Some '' Bitcoin '', form_type = Some crypto,
      form_name = Some ''Bitcoin'', form_symbol = Some ''BTC'', form_quantity = Some ''2'',
      form_purchaseValue = Some [], form_currentValue = None \<rparr>"

section \<open>Valuation theorems\<close>

lemma withCalculated_fields:
  "price (withCalculated pm a) = fst (calculate pm a)"
  "calculatedValue (withCalculated pm a) = snd (calculate pm a)"
  "id' (withCalculated pm a) = id' a"
  "type' (withCalculated pm a) = type' a"
  "quantity (withCalculated pm a) = quantity a"
  "purchaseValue (withCalculated pm a) = purchaseValue a"
  "currentValue (withCalculated pm a) = currentValue a"
  by (cases a; simp add: withCalculated_def Asset.defs)+

text \<open>
  C4. For a holding of kind crypto, stock or commodity whose id has an entry in the price
  map, the unit price is the entry's \<open>usd\<close> field and the total value is the product of
  quantity and unit price.
\<close>

theorem C4_fetchable_valuation:
  assumes "type' asset = crypto \<or> type' asset = stock \<or> type' asset = commodity"
    and "map_of pm (id' asset) = Some pd"
  shows "price (withCalculated pm asset) = Some (usd pd)
       \<and> calculatedValue (withCalculated pm asset) = Some (jsmul (quantity asset) (usd pd))"
  using assms by (simp add: withCalculated_fields calculate_def Let_def)

theorem C4_fetchable_valuation_witness:
  "(type' bitcoin2 = crypto \<or> type' bitcoin2 = stock \<or> type' bitcoin2 = commodity)
   \<and> map_of [(''bitcoin'', \<lparr> usd = Num 50000 \<rparr>)] (id' bitcoin2) = Some \<lparr> usd = Num 50000 \<rparr>
   \<and> price (withCalculated [(''bitcoin'', \<lparr> usd = Num 50000 \<rparr>)] bitcoin2) = Some (Num 50000)
   \<and> calculatedValue (withCalculated [(''bitcoin'', \<lparr> usd = Num 50000 \<rparr>)] bitcoin2)
       = Some (Num 100000)"
  using C4_fetchable_valuation [of bitcoin2 "[(''bitcoin'', \<lparr> usd = Num 50000 \<rparr>)]"
          "\<lparr> usd = Num 50000 \<rparr>"]
  by (simp add: bitcoin2_def)

text \<open>The total of a portfolio with this single holding is its value.\<close>

lemma newTotalValue_bitcoin2:
  "newTotalValue (portfolioWithCalculatedValues [(''bitcoin'', \<lparr> usd = Num 50000 \<rparr>)] [bitcoin2])
     = Num 100000"
  by (simp add: newTotalValue_def portfolioWithCalculatedValues_def withCalculated_fields
      calculate_def bitcoin2_def Let_def)

text \<open>
  C7. For a real-estate holding with a manual value, the total value is the manual value;
  the unit price is the total value divided by the quantity when the quantity is positive
  and is undefined when the quantity is zero, so no division by zero takes place.
\<close>

theorem C7_real_estate_valuation:
  assumes "type' asset = real_estate" and "currentValue asset = Some mv"
  shows "calculatedValue (withCalculated pm asset) = Some mv
       \<and> (gt_zero (quantity asset) \<longrightarrow>
            price (withCalculated pm asset) = Some (jsdiv mv (quantity asset)))
       \<and> (quantity asset = Num 0 \<longrightarrow> price (withCalculated pm asset) = None)"
  using assms by (simp add: withCalculated_fields calculate_def Let_def)

theorem C7_real_estate_valuation_witness:
  "type' (house (Num 0)) = real_estate \<and> currentValue (house (Num 0)) = Some (Num 300000)
   \<and> calculatedValue (withCalculated [] (house (Num 0))) = Some (Num 300000)
   \<and> price (withCalculated [] (house (Num 0))) = None
   \<and> gt_zero (quantity (house (Num 2)))
   \<and> calculatedValue (withCalculated [] (house (Num 2))) = Some (Num 300000)
   \<and> price (withCalculated [] (house (Num 2))) = Some (Num 150000)"
  using C7_real_estate_valuation [of "house (Num 0)" "Num 300000" "[]"]
        C7_real_estate_valuation [of "house (Num 2)" "Num 300000" "[]"]
  by (simp add: house_def)

text \<open>
  C8. For a holding of kind other, the total value is the purchase value when there is
  one and fifty times the quantity otherwise; the unit price is the total value divided by
  the quantity when the quantity is positive and is undefined otherwise.
\<close>

theorem C8_other_valuation:
  assumes "type' asset = other"
  shows "(\<forall>pv. purchaseValue asset = Some pv \<longrightarrow>
            calculatedValue (withCalculated pm asset) = Some pv)
       \<and> (purchaseValue asset = None \<longrightarrow>
            calculatedValue (withCalculated pm asset) = Some (jsmul (quantity asset) (Num 50)))
       \<and> (gt_zero (quantity asset) \<longrightarrow>
            price (withCalculated pm asset)
              = Some (jsdiv (the (calculatedValue (withCalculated pm asset))) (quantity asset)))
       \<and> (\<not> gt_zero (quantity asset) \<longrightarrow> price (withCalculated pm asset) = None)"
  using assms by (simp add: withCalculated_fields calculate_def Let_def)

theorem C8_other_valuation_witness:
  "type' painting = other \<and> purchaseValue painting = None \<and> gt_zero (quantity painting)
   \<and> calculatedValue (withCalculated [] painting) = Some (Num 150)
   \<and> price (withCalculated [] painting) = Some (Num 50)
   \<and> type' (painting\<lparr> quantity := Num 0, purchaseValue := Some (Num 900) \<rparr>) = other
   \<and> calculatedValue (withCalculated [] (painting\<lparr> quantity := Num 0, purchaseValue := Some (Num 900) \<rparr>))
       = Some (Num 900)
   \<and> price (withCalculated [] (painting\<lparr> quantity := Num 0, purchaseValue := Some (Num 900) \<rparr>))
       = None"
  using C8_other_valuation [of painting "[]"]
        C8_other_valuation [of "painting\<lparr> quantity := Num 0, purchaseValue := Some (Num 900) \<rparr>" "[]"]
  by (simp add: painting_def)

lemma find_withCalculated:
  "find (\<lambda>a. id' a = n) (portfolioWithCalculatedValues pm p)
     = map_option (withCalculated pm) (find (\<lambda>a. id' a = n) p)"
  by (induction p) (simp_all add: portfolioWithCalculatedValues_def withCalculated_fields)

text \<open>
  C10. The chart of the featured asset: every rendered point keeps its date and carries
  the historical unit price of that date multiplied by the present quantity of the
  holding with the featured id; for a featured id other than the empty string, \<open>N/A\<close>
  and \<open>Error\<close> all points of the server series are rendered. When no holding has the
  featured id, or the server series is empty, nothing is rendered.
\<close>

theorem C10_chart_scaled_by_quantity:
  fixes pf :: "Asset list" and featured :: string
  shows "(\<forall>h. find (\<lambda>a. id' a = featured) pf = Some h \<longrightarrow>
            (\<forall>i < length (clientChartData featured
                            (portfolioWithCalculatedValues pm pf) serverChartData).
                 date (clientChartData featured
                         (portfolioWithCalculatedValues pm pf) serverChartData ! i)
                   = date (serverChartData ! i)
               \<and> val (clientChartData featured
                         (portfolioWithCalculatedValues pm pf) serverChartData ! i)
                   = jsmul (val (serverChartData ! i)) (quantity h))
          \<and> (featured \<noteq> [] \<and> featured \<noteq> ''N/A'' \<and> featured \<noteq> ''Error'' \<longrightarrow>
               length (clientChartData featured
                         (portfolioWithCalculatedValues pm pf) serverChartData)
                 = length serverChartData))
       \<and> ((\<forall>h \<in> set pf. id' h \<noteq> featured) \<longrightarrow>
            clientChartData featured (portfolioWithCalculatedValues pm pf) serverChartData = [])
       \<and> (serverChartData = [] \<longrightarrow>
            clientChartData featured (portfolioWithCalculatedValues pm pf) serverChartData = [])"
proof -
  let ?chart = "clientChartData featured (portfolioWithCalculatedValues pm pf) serverChartData"
  have points: "\<forall>i < length ?chart. date (?chart ! i) = date (serverChartData ! i)
                  \<and> val (?chart ! i) = jsmul (val (serverChartData ! i)) (quantity h)"
    if "find (\<lambda>a. id' a = featured) pf = Some h" for h
    using that
    by (simp add: clientChartData_def assetForChart_def find_withCalculated withCalculated_fields)
  have len: "length ?chart = length serverChartData"
    if "find (\<lambda>a. id' a = featured) pf = Some h"
      and "featured \<noteq> [] \<and> featured \<noteq> ''N/A'' \<and> featured \<noteq> ''Error''" for h
    using that by (simp add: clientChartData_def assetForChart_def find_withCalculated)
  have absent: "?chart = []" if "\<forall>h \<in> set pf. id' h \<noteq> featured"
  proof -
    from that have "find (\<lambda>a. id' a = featured) pf = None"
      by (simp add: find_None_iff)
    then show ?thesis
      by (simp add: clientChartData_def assetForChart_def find_withCalculated)
  qed
  have empty: "?chart = []" if "serverChartData = []"
    using that by (simp add: clientChartData_def split: option.split)
  from points len absent empty show ?thesis by blast
qed

theorem C10_chart_scaled_by_quantity_witness:
  "find (\<lambda>a. id' a = ''bitcoin'') [bitcoin2] = Some bitcoin2
   \<and> (1::nat) < length (clientChartData ''bitcoin'' (portfolioWithCalculatedValues [] [bitcoin2])
                   [\<lparr> date = 1, val = Num 100 \<rparr>, \<lparr> date = 2, val = Num 200 \<rparr>])
   \<and> val (clientChartData ''bitcoin'' (portfolioWithCalculatedValues [] [bitcoin2])
                   [\<lparr> date = 1, val = Num 100 \<rparr>, \<lparr> date = 2, val = Num 200 \<rparr>] ! 1) = Num 400
   \<and> id' bitcoin2 \<noteq> ''ethereum''
   \<and> clientChartData ''ethereum'' (portfolioWithCalculatedValues [] [bitcoin2])
                   [\<lparr> date = 1, val = Num 100 \<rparr>, \<lparr> date = 2, val = Num 200 \<rparr>] = []"
  using C10_chart_scaled_by_quantity [of "''bitcoin''" "[bitcoin2]" "[]"
          "[\<lparr> date = 1, val = Num 100 \<rparr>, \<lparr> date = 2, val = Num 200 \<rparr>]"]
        C10_chart_scaled_by_quantity [of "''ethereum''" "[bitcoin2]" "[]"
          "[\<lparr> date = 1, val = Num 100 \<rparr>, \<lparr> date = 2, val = Num 200 \<rparr>]"]
  by (simp add: bitcoin2_def)

section \<open>The holdings store: theorems\<close>

lemma parseFloat_zero: "parseFloatStr ''0'' = Num 0"
  by (simp add: parseFloatStr_def unsignedDecimal_def isWhiteSpace_def isDigit_def digitVal_def
      digitsVal_def exponentFactor_def)

text \<open>
  An asset whose quantity is a number and whose optional values are absent or numbers
  other than zero is read back as it was written, without any derived field.
\<close>

lemma load_store_asset:
  assumes "quantity a \<noteq> NaN"
    and "purchaseValue a \<noteq> Some NaN" and "purchaseValue a \<noteq> Some (Num 0)"
    and "currentValue a \<noteq> Some NaN" and "currentValue a \<noteq> Some (Num 0)"
  shows "loadAsset (storeAsset a) = Asset.truncate a"
proof -
  have q: "loadQuantity (Some (numToJson (quantity a))) = quantity a"
    using assms(1) by (cases "quantity a") (simp_all add: loadQuantity_def parseFloat_zero)
  have opt: "loadOptional (map_option numToJson v) = v"
    if "v \<noteq> Some NaN" and "v \<noteq> Some (Num 0)" for v
  proof (cases v)
    case None
    then show ?thesis by (simp add: loadOptional_def)
  next
    case (Some n)
    with that show ?thesis by (cases n) (simp_all add: loadOptional_def)
  qed
  show ?thesis
    using q opt [OF assms(2,3)] opt [OF assms(4,5)]
    by (simp add: loadAsset_def storeAsset_def Asset.truncate_def)
qed

lemma load_save_portfolio:
  assumes "\<forall>a \<in> set p. quantity a \<noteq> NaN
             \<and> purchaseValue a \<noteq> Some NaN \<and> purchaseValue a \<noteq> Some (Num 0)
             \<and> currentValue a \<noteq> Some NaN \<and> currentValue a \<noteq> Some (Num 0)"
  shows "getClientPortfolio (saveClientPortfolio p) = map Asset.truncate p"
  using assms by (simp add: getClientPortfolio_def saveClientPortfolio_def load_store_asset)

text \<open>
  C6. Saving a holdings list and loading it back should yield the same list, also for a
  numeric field whose value is 0. The holding \<open>gift\<close> has purchase value 0: after saving
  and loading, its purchase value is undefined, the list differs from the one saved, and
  its valuation changes from 0 to the placeholder of fifty per unit.
\<close>

theorem C6_zero_not_restored:
  "purchaseValue gift = Some (Num 0)
   \<and> map purchaseValue (getClientPortfolio (saveClientPortfolio [gift])) = [None]
   \<and> getClientPortfolio (saveClientPortfolio [gift]) \<noteq> [gift]
   \<and> calculatedValue (withCalculated [] gift) = Some (Num 0)
   \<and> map (calculatedValue \<circ> withCalculated []) (getClientPortfolio (saveClientPortfolio [gift]))
       = [Some (Num 50)]"
  by (simp add: gift_def getClientPortfolio_def saveClientPortfolio_def storeAsset_def
      loadAsset_def loadQuantity_def loadOptional_def withCalculated_fields calculate_def Let_def)

text \<open>
  The store is in step with the portfolio when it holds the saved form of the portfolio.
  It is so after every removal and after every accepted add, an add keeps it so, and it is
  so on mount when the store was written from holdings whose numeric fields are numbers
  other than 0 where optional.
\<close>

lemma in_step_after_remove:
  "st_storage (handleRemoveAsset i st) = saveClientPortfolio (st_portfolio (handleRemoveAsset i st))"
  by (simp add: handleRemoveAsset_def Let_def)

lemma in_step_after_accepted_add:
  "\<not> list_ex (\<lambda>a. id' a = id' h) (st_portfolio st)
     \<Longrightarrow> st_storage (addAsset h st) = saveClientPortfolio (st_portfolio (addAsset h st))"
  by (simp add: addAsset_def Let_def)

lemma in_step_kept_by_add:
  "st_storage st = saveClientPortfolio (st_portfolio st)
     \<Longrightarrow> st_storage (addAsset h st) = saveClientPortfolio (st_portfolio (addAsset h st))"
  by (simp add: addAsset_def Let_def)

lemma truncate_Asset: "Asset.truncate (a :: Asset) = a"
  by (cases a) (simp add: Asset.truncate_def)

lemma map_truncate_Asset: "map Asset.truncate (p :: Asset list) = p"
  by (induction p) (simp_all add: truncate_Asset)

lemma in_step_after_mount:
  fixes p :: "Asset list"
  assumes "\<forall>a \<in> set p. quantity a \<noteq> NaN
             \<and> purchaseValue a \<noteq> Some NaN \<and> purchaseValue a \<noteq> Some (Num 0)
             \<and> currentValue a \<noteq> Some NaN \<and> currentValue a \<noteq> Some (Num 0)"
  shows "st_storage (mounted (saveClientPortfolio p))
           = saveClientPortfolio (st_portfolio (mounted (saveClientPortfolio p)))"
proof -
  from load_save_portfolio [OF assms] show ?thesis
    by (simp add: mounted_def map_truncate_Asset)
qed

text \<open>
  C5. Adding a holding and then removing the holding with its id. When no holding with
  that id is present before, the holdings list is restored and the store then holds the
  saved form of that list; the whole state, store included, is restored exactly when the
  store was in step with the list before; and the holdings read back from the store are
  the list, provided none of its numeric fields is \<open>NaN\<close> or an optional 0. When a holding with that id is present before,
  the add is refused and writes nothing, and the removal deletes every earlier holding
  with that id: the list gets shorter and the store holds the saved form of the shorter
  list.
\<close>

theorem C5_add_then_remove:
  "(\<not> list_ex (\<lambda>a. id' a = id' h) (st_portfolio st) \<longrightarrow>
       st_portfolio (handleRemoveAsset (id' h) (addAsset h st)) = st_portfolio st
     \<and> st_storage (handleRemoveAsset (id' h) (addAsset h st))
         = saveClientPortfolio (st_portfolio st)
     \<and> (handleRemoveAsset (id' h) (addAsset h st) = st
          \<longleftrightarrow> st_storage st = saveClientPortfolio (st_portfolio st))
     \<and> ((\<forall>a \<in> set (st_portfolio st). quantity a \<noteq> NaN
             \<and> purchaseValue a \<noteq> Some NaN \<and> purchaseValue a \<noteq> Some (Num 0)
             \<and> currentValue a \<noteq> Some NaN \<and> currentValue a \<noteq> Some (Num 0))
          \<longrightarrow> getClientPortfolio (st_storage (handleRemoveAsset (id' h) (addAsset h st)))
                = st_portfolio st))
   \<and> (list_ex (\<lambda>a. id' a = id' h) (st_portfolio st) \<longrightarrow>
       addAsset h st = st
     \<and> st_portfolio (handleRemoveAsset (id' h) (addAsset h st))
         = filter (\<lambda>a. id' a \<noteq> id' h) (st_portfolio st)
     \<and> length (st_portfolio (handleRemoveAsset (id' h) (addAsset h st)))
         < length (st_portfolio st)
     \<and> st_storage (handleRemoveAsset (id' h) (addAsset h st))
         = saveClientPortfolio (filter (\<lambda>a. id' a \<noteq> id' h) (st_portfolio st))
     \<and> st_storage (handleRemoveAsset (id' h) (addAsset h st))
         \<noteq> saveClientPortfolio (st_portfolio st))"
proof (intro conjI impI)
  assume fresh: "\<not> list_ex (\<lambda>a. id' a = id' h) (st_portfolio st)"
  then have keep: "filter (\<lambda>a. id' a \<noteq> id' h) (st_portfolio st) = st_portfolio st"
    by (simp add: list_ex_iff filter_id_conv)
  with fresh show p: "st_portfolio (handleRemoveAsset (id' h) (addAsset h st)) = st_portfolio st"
    by (simp add: handleRemoveAsset_def addAsset_def Let_def)
  from fresh keep show s: "st_storage (handleRemoveAsset (id' h) (addAsset h st))
         = saveClientPortfolio (st_portfolio st)"
    by (simp add: handleRemoveAsset_def addAsset_def Let_def)
  show "handleRemoveAsset (id' h) (addAsset h st) = st
          \<longleftrightarrow> st_storage st = saveClientPortfolio (st_portfolio st)"
  proof
    assume "handleRemoveAsset (id' h) (addAsset h st) = st"
    with s show "st_storage st = saveClientPortfolio (st_portfolio st)" by simp
  next
    assume "st_storage st = saveClientPortfolio (st_portfolio st)"
    with p s show "handleRemoveAsset (id' h) (addAsset h st) = st"
      by (intro ClientState.equality) simp_all
  qed
  assume "\<forall>a \<in> set (st_portfolio st). quantity a \<noteq> NaN
             \<and> purchaseValue a \<noteq> Some NaN \<and> purchaseValue a \<noteq> Some (Num 0)
             \<and> currentValue a \<noteq> Some NaN \<and> currentValue a \<noteq> Some (Num 0)"
  from load_save_portfolio [OF this] s
  show "getClientPortfolio (st_storage (handleRemoveAsset (id' h) (addAsset h st)))
          = st_portfolio st"
    by (simp add: map_truncate_Asset)
next
  assume held: "list_ex (\<lambda>a. id' a = id' h) (st_portfolio st)"
  then show refused: "addAsset h st = st"
    by (simp add: addAsset_def Let_def)
  from refused show "st_portfolio (handleRemoveAsset (id' h) (addAsset h st))
         = filter (\<lambda>a. id' a \<noteq> id' h) (st_portfolio st)"
    by (simp add: handleRemoveAsset_def Let_def)
  from held obtain a where "a \<in> set (st_portfolio st)" and "id' a = id' h"
    by (auto simp add: list_ex_iff)
  then have shorter: "length (filter (\<lambda>a. id' a \<noteq> id' h) (st_portfolio st))
                        < length (st_portfolio st)"
    by (intro length_filter_less [of a]) simp_all
  with refused show "length (st_portfolio (handleRemoveAsset (id' h) (addAsset h st)))
         < length (st_portfolio st)"
    by (simp add: handleRemoveAsset_def Let_def)
  from refused show stored: "st_storage (handleRemoveAsset (id' h) (addAsset h st))
         = saveClientPortfolio (filter (\<lambda>a. id' a \<noteq> id' h) (st_portfolio st))"
    by (simp add: handleRemoveAsset_def Let_def)
  have "saveClientPortfolio (filter (\<lambda>a. id' a \<noteq> id' h) (st_portfolio st))
          \<noteq> saveClientPortfolio (st_portfolio st)"
  proof
    assume "saveClientPortfolio (filter (\<lambda>a. id' a \<noteq> id' h) (st_portfolio st))
              = saveClientPortfolio (st_portfolio st)"
    then have "length (map storeAsset (filter (\<lambda>a. id' a \<noteq> id' h) (st_portfolio st)))
                 = length (map storeAsset (st_portfolio st))"
      by (simp add: saveClientPortfolio_def)
    with shorter show False by simp
  qed
  with stored show "st_storage (handleRemoveAsset (id' h) (addAsset h st))
         \<noteq> saveClientPortfolio (st_portfolio st)"
    by simp
qed

theorem C5_add_then_remove_witness:
  "\<not> list_ex (\<lambda>a. id' a = id' gift) (st_portfolio (storeOf [bitcoin2]))
   \<and> st_storage (storeOf [bitcoin2]) = saveClientPortfolio (st_portfolio (storeOf [bitcoin2]))
   \<and> addAsset gift (storeOf [bitcoin2]) = storeOf [bitcoin2, gift]
   \<and> handleRemoveAsset (id' gift) (addAsset gift (storeOf [bitcoin2])) = storeOf [bitcoin2]
   \<and> getClientPortfolio (st_storage (handleRemoveAsset (id' gift)
                                         (addAsset gift (storeOf [bitcoin2])))) = [bitcoin2]
   \<and> list_ex (\<lambda>a. id' a = id' (bitcoin2\<lparr> quantity := Num 5 \<rparr>)) (st_portfolio (storeOf [bitcoin2]))
   \<and> addAsset (bitcoin2\<lparr> quantity := Num 5 \<rparr>) (storeOf [bitcoin2]) = storeOf [bitcoin2]
   \<and> st_portfolio (handleRemoveAsset (id' (bitcoin2\<lparr> quantity := Num 5 \<rparr>))
                     (addAsset (bitcoin2\<lparr> quantity := Num 5 \<rparr>) (storeOf [bitcoin2]))) = []"
proof -
  have fresh: "\<not> list_ex (\<lambda>a. id' a = id' gift) (st_portfolio (storeOf [bitcoin2]))"
    by (simp add: storeOf_def gift_def bitcoin2_def)
  have step: "st_storage (storeOf [bitcoin2])
                = saveClientPortfolio (st_portfolio (storeOf [bitcoin2]))"
    by (simp add: storeOf_def)
  have added: "addAsset gift (storeOf [bitcoin2]) = storeOf [bitcoin2, gift]"
    by (simp add: storeOf_def gift_def bitcoin2_def addAsset_def Let_def)
  have held: "list_ex (\<lambda>a. id' a = id' (bitcoin2\<lparr> quantity := Num 5 \<rparr>))
                (st_portfolio (storeOf [bitcoin2]))"
    by (simp add: storeOf_def)
  have rest: "filter (\<lambda>a. id' a \<noteq> id' (bitcoin2\<lparr> quantity := Num 5 \<rparr>))
                (st_portfolio (storeOf [bitcoin2])) = []"
    by (simp add: storeOf_def)
  have safe: "\<forall>a \<in> set (st_portfolio (storeOf [bitcoin2])). quantity a \<noteq> NaN
             \<and> purchaseValue a \<noteq> Some NaN \<and> purchaseValue a \<noteq> Some (Num 0)
             \<and> currentValue a \<noteq> Some NaN \<and> currentValue a \<noteq> Some (Num 0)"
    by (simp add: storeOf_def bitcoin2_def)
  from fresh step safe C5_add_then_remove [of gift "storeOf [bitcoin2]"]
  have restored: "handleRemoveAsset (id' gift) (addAsset gift (storeOf [bitcoin2]))
                    = storeOf [bitcoin2]"
    and readback: "getClientPortfolio (st_storage (handleRemoveAsset (id' gift)
                                         (addAsset gift (storeOf [bitcoin2]))))
                    = st_portfolio (storeOf [bitcoin2])"
    by blast+
  from held C5_add_then_remove [of "bitcoin2\<lparr> quantity := Num 5 \<rparr>" "storeOf [bitcoin2]"]
  have "addAsset (bitcoin2\<lparr> quantity := Num 5 \<rparr>) (storeOf [bitcoin2]) = storeOf [bitcoin2]"
    and "st_portfolio (handleRemoveAsset (id' (bitcoin2\<lparr> quantity := Num 5 \<rparr>))
                     (addAsset (bitcoin2\<lparr> quantity := Num 5 \<rparr>) (storeOf [bitcoin2])))
           = filter (\<lambda>a. id' a \<noteq> id' (bitcoin2\<lparr> quantity := Num 5 \<rparr>))
                (st_portfolio (storeOf [bitcoin2]))"
    by blast+
  with fresh step added held restored readback rest show ?thesis
    by (simp add: storeOf_def)
qed

text \<open>
  The same for a submitted form: when the form passes validation and yields the asset
  \<open>h\<close>, adding by the form and removing by the id of \<open>h\<close> restores the holdings.
\<close>

lemma handleAddAsset_then_remove:
  assumes "newAssetOfForm form now = Some h"
    and "\<not> list_ex (\<lambda>a. id' a = id' h) (st_portfolio st)"
  shows "st_portfolio (handleRemoveAsset (id' h) (handleAddAsset form now st)) = st_portfolio st
       \<and> st_storage (handleRemoveAsset (id' h) (handleAddAsset form now st))
           = saveClientPortfolio (st_portfolio st)"
proof -
  from assms(2) have "filter (\<lambda>a. id' a \<noteq> id' h) (st_portfolio st) = st_portfolio st"
    by (simp add: list_ex_iff filter_id_conv)
  with assms show ?thesis
    by (simp add: handleAddAsset_def handleRemoveAsset_def addAsset_def Let_def)
qed

lemma newAssetOfForm_bitcoinForm: "newAssetOfForm bitcoinForm now = Some bitcoin2"
  by (simp add: newAssetOfForm_def bitcoinForm_def bitcoin2_def fieldText_def trim_def
      isWhiteSpace_def toLowerCase_def toLowerChar_def parseFloatStr_def unsignedDecimal_def
      isDigit_def digitVal_def digitsVal_def exponentFactor_def Let_def)

text \<open>A form without name is refused, and so is a commodity other than gold and silver.\<close>

lemma newAssetOfForm_refused:
  "newAssetOfForm (bitcoinForm\<lparr> form_name := None \<rparr>) now = None"
  "newAssetOfForm (bitcoinForm\<lparr> form_type := Some commodity, form_id := Some ''xpt'' \<rparr>) now = None"
  by (simp_all add: newAssetOfForm_def bitcoinForm_def fieldText_def trim_def
      isWhiteSpace_def toUpperCase_def toUpperChar_def parseFloatStr_def unsignedDecimal_def
      isDigit_def digitVal_def digitsVal_def exponentFactor_def Let_def)

text \<open>
  When a holding with the id is already present, the add is refused and the removal
  deletes the earlier holding: the store is not restored. Before the first write the
  store is absent and the portfolio empty: adding a holding and removing it leaves an
  empty array in the store.
\<close>

theorem C5_store_not_restored_counterexample:
  "id' (bitcoin2\<lparr> quantity := Num 5 \<rparr>) = ''bitcoin''
   \<and> addAsset (bitcoin2\<lparr> quantity := Num 5 \<rparr>) (storeOf [bitcoin2]) = storeOf [bitcoin2]
   \<and> handleRemoveAsset ''bitcoin'' (addAsset (bitcoin2\<lparr> quantity := Num 5 \<rparr>) (storeOf [bitcoin2]))
       = storeOf []
   \<and> st_storage (storeOf []) \<noteq> st_storage (storeOf [bitcoin2])
   \<and> mounted NoItem = \<lparr> st_portfolio = [], st_storage = NoItem \<rparr>
   \<and> handleRemoveAsset (id' gift) (addAsset gift (mounted NoItem))
       = \<lparr> st_portfolio = [], st_storage = Items [] \<rparr>"
  by (simp add: storeOf_def mounted_def getClientPortfolio_def bitcoin2_def gift_def addAsset_def
      handleRemoveAsset_def saveClientPortfolio_def Let_def)

text \<open>
  After a reload that has dropped a stored 0, the store is out of step as well, and
  adding and removing another holding rewrites it.
\<close>

lemma store_out_of_step_after_reload_of_zero:
  "st_portfolio (mounted (saveClientPortfolio [gift])) = [gift\<lparr> purchaseValue := None \<rparr>]
   \<and> st_storage (mounted (saveClientPortfolio [gift]))
       \<noteq> saveClientPortfolio (st_portfolio (mounted (saveClientPortfolio [gift])))
   \<and> st_storage (handleRemoveAsset (id' bitcoin2)
                    (addAsset bitcoin2 (mounted (saveClientPortfolio [gift]))))
       \<noteq> st_storage (mounted (saveClientPortfolio [gift]))"
  by (simp add: mounted_def getClientPortfolio_def saveClientPortfolio_def storeAsset_def
      loadAsset_def loadQuantity_def loadOptional_def gift_def bitcoin2_def addAsset_def
      handleRemoveAsset_def Let_def)

section \<open>The adapters: theorems\<close>

lemma stockLoop_trace:
  "snd (stockLoop net symbols results)
     = concat (map (\<lambda>s. [Delay 13000, Request (stockUrl s)]) symbols)"
  by (induction symbols arbitrary: results) (simp_all add: Let_def fetchWithDelay_def)

lemma commodityLoop_trace:
  "snd (commodityLoop net symbols results)
     = map (\<lambda>s. Request (commodityUrl (toUpperCase s))) symbols"
  by (induction symbols arbitrary: results) (simp_all add: Let_def commodityFetch_def)

lemma totalDelay_stock:
  "totalDelay (concat (map (\<lambda>s. [Delay 13000, Request (stockUrl s)]) symbols))
     = 13000 * length symbols"
  by (induction symbols) simp_all

lemma totalDelay_requests: "totalDelay (map Request urls) = 0"
  by (induction urls) simp_all

text \<open>
  C9. The equity adapter issues one request per symbol, in order, and waits 13000 ms
  before each of them, so every symbol costs one delay. The commodity adapter issues one
  request per supported symbol, in order, and never waits.
\<close>

theorem C9_request_and_delay_discipline:
  "snd (fetchStockPrices net symbols)
     = concat (map (\<lambda>s. [Delay 13000, Request (stockUrl s)]) symbols)
   \<and> totalDelay (snd (fetchStockPrices net symbols)) = 13000 * length symbols
   \<and> snd (fetchCommodityPrices net symbols)
     = map (\<lambda>s. Request (commodityUrl (toUpperCase s)))
         (filter (\<lambda>s. toUpperCase s \<in> set supportedSymbols) symbols)
   \<and> totalDelay (snd (fetchCommodityPrices net symbols)) = 0"
proof -
  have stock: "snd (fetchStockPrices net symbols)
     = concat (map (\<lambda>s. [Delay 13000, Request (stockUrl s)]) symbols)"
    by (simp add: fetchStockPrices_def ALPHA_VANTAGE_API_KEY_def stockLoop_trace)
  have commodity: "snd (fetchCommodityPrices net symbols)
     = map (\<lambda>s. Request (commodityUrl (toUpperCase s)))
         (filter (\<lambda>s. toUpperCase s \<in> set supportedSymbols) symbols)"
    by (simp add: fetchCommodityPrices_def GOLDAPI_API_KEY_def commodityLoop_trace Let_def)
  have "totalDelay (snd (fetchCommodityPrices net symbols)) = 0"
    unfolding commodity using totalDelay_requests [of "map (\<lambda>s. commodityUrl (toUpperCase s))
         (filter (\<lambda>s. toUpperCase s \<in> set supportedSymbols) symbols)"]
    by (simp add: comp_def)
  with stock commodity show ?thesis by (simp add: totalDelay_stock)
qed

theorem C9_request_and_delay_discipline_witness:
  "snd (fetchStockPrices net_metals [''AAPL'', ''MSFT'', ''IBM''])
     = [Delay 13000, Request (stockUrl ''AAPL''), Delay 13000, Request (stockUrl ''MSFT''),
        Delay 13000, Request (stockUrl ''IBM'')]
   \<and> totalDelay (snd (fetchStockPrices net_metals [''AAPL'', ''MSFT'', ''IBM''])) = 39000
   \<and> snd (fetchCommodityPrices net_metals [''xau'', ''XPT'', ''XAG''])
     = [Request (commodityUrl ''XAU''), Request (commodityUrl ''XAG'')]"
  using C9_request_and_delay_discipline [of net_metals "[''AAPL'', ''MSFT'', ''IBM'']"]
        C9_request_and_delay_discipline [of net_metals "[''xau'', ''XPT'', ''XAG'']"]
  by (simp add: supportedSymbols_def toUpperCase_def toUpperChar_def)

text \<open>
  The commodity adapter sends its two requests back to back, and sends none for a symbol
  it does not support.
\<close>

theorem C9_commodity_no_delay_counterexample:
  "snd (fetchCommodityPrices net_metals [''XAU'', ''XAG''])
     = [Request (commodityUrl ''XAU''), Request (commodityUrl ''XAG'')]
   \<and> totalDelay (snd (fetchCommodityPrices net_metals [''XAU'', ''XAG''])) = 0
   \<and> snd (fetchCommodityPrices net_metals [''XPT'']) = []"
  by (simp add: fetchCommodityPrices_def GOLDAPI_API_KEY_def supportedSymbols_def
      toUpperCase_def toUpperChar_def Let_def commodityFetch_def)


lemma stockQuote_not_NaN: "stockQuote data = Some pr \<Longrightarrow> \<not> isNaN pr"
  by (auto simp add: stockQuote_def Let_def split: if_splits option.splits)

lemma commodityQuote_not_NaN: "commodityQuote data = Some pr \<Longrightarrow> \<not> isNaN pr"
  by (auto simp add: commodityQuote_def split: if_splits option.splits json.splits)

lemma stockLoop_absent:
  assumes "case fst (fetchWithDelay net (stockUrl k)) of
             Inl e \<Rightarrow> True
           | Inr data \<Rightarrow> stockQuote data = None"
  shows "map_of (fst (stockLoop net symbols results)) k = map_of results k"
  using assms
proof (induction symbols arbitrary: results)
  case Nil
  then show ?case by simp
next
  case (Cons symb rest)
  show ?case
  proof (cases "symb = k")
    case True
    with Cons.prems have "(case fst (fetchWithDelay net (stockUrl symb)) of
                        Inl e \<Rightarrow> results
                      | Inr data \<Rightarrow>
                          (case stockQuote data of
                             None \<Rightarrow> results
                           | Some pr \<Rightarrow> AList.update symb \<lparr> usd = pr \<rparr> results)) = results"
      by (simp split: sum.splits)
    with Cons show ?thesis by (simp add: Let_def)
  next
    case False
    then have "map_of (case fst (fetchWithDelay net (stockUrl symb)) of
                        Inl e \<Rightarrow> results
                      | Inr data \<Rightarrow>
                          (case stockQuote data of
                             None \<Rightarrow> results
                           | Some pr \<Rightarrow> AList.update symb \<lparr> usd = pr \<rparr> results)) k
               = map_of results k"
      by (simp add: update_conv' split: sum.splits option.splits)
    with Cons show ?thesis by (simp add: Let_def)
  qed
qed

lemma stockLoop_numeric:
  assumes "\<And>k pd. map_of results k = Some pd \<Longrightarrow> \<not> isNaN (usd pd)"
    and "map_of (fst (stockLoop net symbols results)) k = Some pd"
  shows "\<not> isNaN (usd pd)"
  using assms
proof (induction symbols arbitrary: results)
  case Nil
  then show ?case by simp
next
  case (Cons symb rest)
  let ?results' = "(case fst (fetchWithDelay net (stockUrl symb)) of
                        Inl e \<Rightarrow> results
                      | Inr data \<Rightarrow>
                          (case stockQuote data of
                             None \<Rightarrow> results
                           | Some pr \<Rightarrow> AList.update symb \<lparr> usd = pr \<rparr> results))"
  have inv: "\<not> isNaN (usd pd')" if "map_of ?results' k' = Some pd'" for k' pd'
    using that Cons.prems(1) stockQuote_not_NaN
    by (auto simp add: update_conv' split: sum.splits option.splits if_splits)
  from Cons.prems(2) have "map_of (fst (stockLoop net rest ?results')) k = Some pd"
    by (simp add: Let_def)
  with Cons.IH [of ?results'] inv show ?case by blast
qed

lemma commodityLoop_absent:
  assumes "fst (commodityFetch net (commodityUrl k)) = None"
  shows "map_of (fst (commodityLoop net symbols results)) k = map_of results k"
  using assms
proof (induction symbols arbitrary: results)
  case Nil
  then show ?case by simp
next
  case (Cons symb rest)
  show ?case
  proof (cases "toUpperCase symb = k")
    case True
    with Cons show ?thesis by (simp add: Let_def)
  next
    case False
    then have "map_of (case fst (commodityFetch net (commodityUrl (toUpperCase symb))) of
                        None \<Rightarrow> results
                      | Some pr \<Rightarrow> AList.update (toUpperCase symb) \<lparr> usd = pr \<rparr> results) k
               = map_of results k"
      by (simp add: update_conv' split: option.splits)
    with Cons show ?thesis by (simp add: Let_def)
  qed
qed

lemma commodityLoop_numeric:
  assumes "\<And>k pd. map_of results k = Some pd \<Longrightarrow> \<not> isNaN (usd pd)"
    and "map_of (fst (commodityLoop net symbols results)) k = Some pd"
  shows "\<not> isNaN (usd pd)"
  using assms
proof (induction symbols arbitrary: results)
  case Nil
  then show ?case by simp
next
  case (Cons symb rest)
  let ?results' = "(case fst (commodityFetch net (commodityUrl (toUpperCase symb))) of
                        None \<Rightarrow> results
                      | Some pr \<Rightarrow> AList.update (toUpperCase symb) \<lparr> usd = pr \<rparr> results)"
  have q: "\<not> isNaN pr" if "fst (commodityFetch net url) = Some pr" for url pr
    using that commodityQuote_not_NaN
    by (auto simp add: commodityFetch_def split: response.splits if_splits option.splits)
  have inv: "\<not> isNaN (usd pd')" if "map_of ?results' k' = Some pd'" for k' pd'
    using that Cons.prems(1) q
    by (auto simp add: update_conv' split: option.splits if_splits)
  from Cons.prems(2) have "map_of (fst (commodityLoop net rest ?results')) k = Some pd"
    by (simp add: Let_def)
  with Cons.IH [of ?results'] inv show ?case by blast
qed

lemma fetchStockPrices_absent:
  assumes "case fst (fetchWithDelay net (stockUrl k)) of
             Inl e \<Rightarrow> True
           | Inr data \<Rightarrow> stockQuote data = None"
  shows "map_of (fst (fetchStockPrices net symbols)) k = None"
  using stockLoop_absent [OF assms, of symbols "[]"]
  by (simp add: fetchStockPrices_def)

lemma fetchCommodityPrices_absent:
  assumes "fst (commodityFetch net (commodityUrl k)) = None"
  shows "map_of (fst (fetchCommodityPrices net symbols)) k = None"
  using commodityLoop_absent [OF assms, of _ "[]"]
  by (simp add: fetchCommodityPrices_def Let_def)

lemma fetchStockPrices_numeric:
  "map_of (fst (fetchStockPrices net symbols)) k = Some pd \<Longrightarrow> \<not> isNaN (usd pd)"
  using stockLoop_numeric [of "[]" net symbols k pd]
  by (simp add: fetchStockPrices_def split: if_splits)

lemma fetchCommodityPrices_numeric:
  "map_of (fst (fetchCommodityPrices net symbols)) k = Some pd \<Longrightarrow> \<not> isNaN (usd pd)"
  using commodityLoop_numeric [of "[]" net _ k pd]
  by (simp add: fetchCommodityPrices_def Let_def split: if_splits)


lemma stock_unusable:
  assumes "net (stockUrl s) = FetchFailed
         \<or> (\<exists>b. net (stockUrl s) = Response False b)
         \<or> net (stockUrl s) = Response True None
         \<or> (\<exists>data. net (stockUrl s) = Response True (Some data)
               \<and> (hasKey ''Error Message'' data \<or> hasKey ''Information'' data
                   \<or> hasKey ''Note'' data))
         \<or> (\<exists>data. net (stockUrl s) = Response True (Some data)
               \<and> (\<forall>gq p. getProp data ''Global Quote'' = Some gq
                         \<and> getProp gq ''05. price'' = Some p \<longrightarrow> isNaN (parseFloat p)))"
  shows "case fst (fetchWithDelay net (stockUrl s)) of
           Inl e \<Rightarrow> True
         | Inr data \<Rightarrow> stockQuote data = None"
  using assms
  by (auto simp add: fetchWithDelay_def stockQuote_def isAlphaVantageError_def Let_def
      split: option.splits)

lemma commodity_unusable:
  assumes "net (commodityUrl k) = FetchFailed
         \<or> (\<exists>b. net (commodityUrl k) = Response False b)
         \<or> net (commodityUrl k) = Response True None
         \<or> (\<exists>data. net (commodityUrl k) = Response True (Some data) \<and> hasKey ''error'' data)
         \<or> (\<exists>data. net (commodityUrl k) = Response True (Some data)
               \<and> (\<forall>p. getProp data ''price'' \<noteq> Some (JNum p)))"
  shows "fst (commodityFetch net (commodityUrl k)) = None"
  using assms
  by (auto simp add: commodityFetch_def commodityQuote_def isGoldApiError_def
      split: option.splits json.splits)

text \<open>
  C3. Degradation per id. In the equity adapter a symbol whose request is rejected, is
  answered with a status that is not ok, with a body that is not JSON, with a vendor
  message, or without a quote whose price field parses to a number, is absent from the
  result; likewise in the commodity adapter for a symbol answered with an error payload
  or without a numeric \<open>price\<close>. Both adapters return a mapping in every case, and no
  price in it is \<open>NaN\<close>. The crypto adapter throws on a rejected request, on a status
  that is not ok and on a body that is not JSON, and returns any other body as it is.
\<close>

theorem C3_adapter_degradation:
  fixes net :: network
  shows "(net (stockUrl s) = FetchFailed
         \<or> (\<exists>b. net (stockUrl s) = Response False b)
         \<or> net (stockUrl s) = Response True None
         \<or> (\<exists>data. net (stockUrl s) = Response True (Some data)
               \<and> (hasKey ''Error Message'' data \<or> hasKey ''Information'' data
                   \<or> hasKey ''Note'' data))
         \<or> (\<exists>data. net (stockUrl s) = Response True (Some data)
               \<and> (\<forall>gq p. getProp data ''Global Quote'' = Some gq
                         \<and> getProp gq ''05. price'' = Some p \<longrightarrow> isNaN (parseFloat p)))
         \<longrightarrow> map_of (fst (fetchStockPrices net symbols)) s = None)
       \<and> (net (commodityUrl (toUpperCase s)) = FetchFailed
         \<or> (\<exists>b. net (commodityUrl (toUpperCase s)) = Response False b)
         \<or> net (commodityUrl (toUpperCase s)) = Response True None
         \<or> (\<exists>data. net (commodityUrl (toUpperCase s)) = Response True (Some data)
               \<and> hasKey ''error'' data)
         \<or> (\<exists>data. net (commodityUrl (toUpperCase s)) = Response True (Some data)
               \<and> (\<forall>p. getProp data ''price'' \<noteq> Some (JNum p)))
         \<longrightarrow> map_of (fst (fetchCommodityPrices net symbols)) (toUpperCase s) = None)
       \<and> (\<forall>k pd. map_of (fst (fetchStockPrices net symbols)) k = Some pd \<longrightarrow> \<not> isNaN (usd pd))
       \<and> (\<forall>k pd. map_of (fst (fetchCommodityPrices net symbols)) k = Some pd
             \<longrightarrow> \<not> isNaN (usd pd))
       \<and> (ids \<noteq> [] \<longrightarrow>
            (net (cryptoPricesUrl ids) = FetchFailed
               \<longrightarrow> fetchCryptoPrices net ids = Inl NetworkError)
          \<and> (\<forall>b. net (cryptoPricesUrl ids) = Response False b
               \<longrightarrow> fetchCryptoPrices net ids = Inl HttpError)
          \<and> (net (cryptoPricesUrl ids) = Response True None
               \<longrightarrow> fetchCryptoPrices net ids = Inl JsonError)
          \<and> (\<forall>data. net (cryptoPricesUrl ids) = Response True (Some data)
               \<longrightarrow> fetchCryptoPrices net ids = Inr data))"
proof -
  have crypto: "ids \<noteq> [] \<longrightarrow>
            (net (cryptoPricesUrl ids) = FetchFailed
               \<longrightarrow> fetchCryptoPrices net ids = Inl NetworkError)
          \<and> (\<forall>b. net (cryptoPricesUrl ids) = Response False b
               \<longrightarrow> fetchCryptoPrices net ids = Inl HttpError)
          \<and> (net (cryptoPricesUrl ids) = Response True None
               \<longrightarrow> fetchCryptoPrices net ids = Inl JsonError)
          \<and> (\<forall>data. net (cryptoPricesUrl ids) = Response True (Some data)
               \<longrightarrow> fetchCryptoPrices net ids = Inr data)"
    by (simp add: fetchCryptoPrices_def)
  show ?thesis
    using fetchStockPrices_absent [OF stock_unusable, of net s symbols]
      fetchCommodityPrices_absent [OF commodity_unusable, of net "toUpperCase s" symbols]
      fetchStockPrices_numeric [of net symbols]
      fetchCommodityPrices_numeric [of net symbols]
      crypto
    by blast
qed

theorem C3_adapter_degradation_witness:
  "net_crypto_bad (stockUrl ''MSFT'')
     = Response True (Some (JObj [(''Note'', JStr ''API call frequency exceeded'')]))
   \<and> hasKey ''Note'' (JObj [(''Note'', JStr ''API call frequency exceeded'')])
   \<and> map_of (fst (fetchStockPrices net_crypto_bad [''AAPL'', ''MSFT''])) ''MSFT'' = None
   \<and> map_of (fst (fetchStockPrices net_crypto_bad [''AAPL'', ''MSFT''])) ''AAPL''
       = Some \<lparr> usd = Num (18998 / 100) \<rparr>
   \<and> [''bitcoin''] \<noteq> []
   \<and> net_crypto_bad (cryptoPricesUrl [''bitcoin'']) = Response False None
   \<and> fetchCryptoPrices net_crypto_bad [''bitcoin''] = Inl HttpError"
proof -
  have msft: "net_crypto_bad (stockUrl ''MSFT'')
     = Response True (Some (JObj [(''Note'', JStr ''API call frequency exceeded'')]))"
    by (simp add: net_crypto_bad_def stockUrl_def cryptoPricesUrl_def alphaVantage_API_BASE_URL_def
        coingecko_API_BASE_URL_def ALPHA_VANTAGE_API_KEY_def)
  have key: "hasKey ''Note'' (JObj [(''Note'', JStr ''API call frequency exceeded'')])"
    by simp
  have btc: "net_crypto_bad (cryptoPricesUrl [''bitcoin'']) = Response False None"
    by (simp add: net_crypto_bad_def)
  have aapl: "map_of (fst (fetchStockPrices net_crypto_bad [''AAPL'', ''MSFT''])) ''AAPL''
       = Some \<lparr> usd = Num (18998 / 100) \<rparr>"
    by (simp add: fetchStockPrices_def fetchWithDelay_def stockQuote_def isAlphaVantageError_def
        net_crypto_bad_def stockUrl_def cryptoPricesUrl_def alphaVantage_API_BASE_URL_def
        coingecko_API_BASE_URL_def ALPHA_VANTAGE_API_KEY_def Let_def
        parseFloatStr_def unsignedDecimal_def isWhiteSpace_def isDigit_def digitVal_def
        digitsVal_def exponentFactor_def)
  from msft key btc
    C3_adapter_degradation [of net_crypto_bad "''MSFT''" "[''AAPL'', ''MSFT'']" "[''bitcoin'']"]
  have "map_of (fst (fetchStockPrices net_crypto_bad [''AAPL'', ''MSFT''])) ''MSFT'' = None"
    and "fetchCryptoPrices net_crypto_bad [''bitcoin''] = Inl HttpError"
    by blast+
  with msft key btc aapl show ?thesis by simp
qed

text \<open>
  The crypto adapter throws on status 500, and hands on a price that is no number.
\<close>

theorem C3_crypto_adapter_counterexample:
  "fetchCryptoPrices net_crypto_bad [''bitcoin''] = Inl HttpError
   \<and> fetchCryptoPrices net_crypto_bad [''ethereum'']
       = Inr (JObj [(''ethereum'', JObj [(''usd'', JStr ''n/a'')])])
   \<and> parseFloat (JStr ''n/a'') = NaN"
  by (simp add: fetchCryptoPrices_def net_crypto_bad_def cryptoPricesUrl_def
      coingecko_API_BASE_URL_def parseFloatStr_def unsignedDecimal_def isWhiteSpace_def
      isDigit_def digitVal_def)

section \<open>The loader: theorems\<close>

lemmas url_defs = cryptoPricesUrl_def cryptoHistoryUrl_def stockUrl_def commodityUrl_def
  coingecko_API_BASE_URL_def alphaVantage_API_BASE_URL_def goldapi_API_BASE_URL_def
  ALPHA_VANTAGE_API_KEY_def GOLDAPI_API_KEY_def

lemmas parse_defs = parseFloatStr_def unsignedDecimal_def isWhiteSpace_def isDigit_def
  digitVal_def digitsVal_def exponentFactor_def

lemma showNat_90: "showNat 90 = ''90''"
  by (simp add: showNat.simps)

lemma showNat_digit: "showNat 0 = ''0''" "showNat 1 = ''1''"
  by (simp_all add: showNat.simps)

lemmas eval_defs = loader_def parseIds_def trim_def fetchCryptoPrices_def
  fetchStockPrices_def fetchCommodityPrices_def fetchCryptoHistory_def dropPartialDay_def
  popLast_def popOptional_def chartOf_def toNumber_def fetchWithDelay_def
  commodityFetch_def stockQuote_def commodityQuote_def isAlphaVantageError_def
  isGoldApiError_def supportedSymbols_def toUpperCase_def toUpperChar_def assign_def
  priceDataJson_def url_defs parse_defs showNat_90 Let_def











section \<open>The refresh controller: theorems\<close>

text \<open>
  C2. After a completed run, a new run should be issued only when the needed ids or the
  needed featured id differ from those of that run. With the single holding MSFT, the
  first evaluation issues the query for MSFT; the run completes with status 200 and an
  empty price map, because the vendor sent a rate-limit note; the next evaluation, with
  the same holdings, issues the same query again, since the needed ids are compared with
  the keys of the returned price map.
\<close>

theorem C2_refetch_after_completed_run:
  "effect2 [msft] idle None ''N/A''
     = Some \<lparr> cryptoIdsParam = None, stockSymbolsParam = Some ''MSFT'',
              commoditySymbolsParam = None \<rparr>
   \<and> loader net_mixed hnet_down 1000000000
        \<lparr> cryptoIdsParam = None, stockSymbolsParam = Some ''MSFT'', commoditySymbolsParam = None \<rparr>
       = (\<lparr> currentPrices = [], chartData = [], chartAssetName = ''N/A'' \<rparr>, 200)
   \<and> effect2 [msft] idle (Some \<lparr> currentPrices = [], chartData = [], chartAssetName = ''N/A'' \<rparr>)
        ''N/A''
     = Some \<lparr> cryptoIdsParam = None, stockSymbolsParam = Some ''MSFT'',
              commoditySymbolsParam = None \<rparr>"
proof -
  have first: "effect2 [msft] idle None ''N/A''
     = Some \<lparr> cryptoIdsParam = None, stockSymbolsParam = Some ''MSFT'',
              commoditySymbolsParam = None \<rparr>"
    by (simp add: effect2_def msft_def Let_def)
  have run: "loader net_mixed hnet_down 1000000000
        \<lparr> cryptoIdsParam = None, stockSymbolsParam = Some ''MSFT'', commoditySymbolsParam = None \<rparr>
       = (\<lparr> currentPrices = [], chartData = [], chartAssetName = ''N/A'' \<rparr>, 200)"
    by (simp add: eval_defs isWhiteSpace_def net_mixed_def)
  have again: "effect2 [msft] idle
        (Some \<lparr> currentPrices = [], chartData = [], chartAssetName = ''N/A'' \<rparr>) ''N/A''
     = Some \<lparr> cryptoIdsParam = None, stockSymbolsParam = Some ''MSFT'',
              commoditySymbolsParam = None \<rparr>"
    by (simp add: effect2_def msft_def Let_def)
  from first run again show ?thesis by simp
qed

text \<open>The second evaluation of C2 issues a load although the run before it had completed.\<close>

theorem C2_refetch_after_completed_run_witness:
  "effect2 [msft] idle (Some \<lparr> currentPrices = [], chartData = [], chartAssetName = ''N/A'' \<rparr>)
        ''N/A'' \<noteq> None
   \<and> effect2 [msft] idle (Some \<lparr> currentPrices = [], chartData = [], chartAssetName = ''N/A'' \<rparr>)
        ''N/A'' = effect2 [msft] idle None ''N/A''"
  using C2_refetch_after_completed_run by simp

text \<open>
  The same happens when every price arrives but the first crypto holding is not the first
  in sorted order: the run charts \<open>ethereum\<close>, the first id of the query, while the
  effect expects \<open>bitcoin\<close>, the first id of the array it has sorted in place.
\<close>

lemma effect2_refetch_sorted_chart_name:
  "effect2 [ethereum1, bitcoin2] idle None ''N/A''
     = Some \<lparr> cryptoIdsParam = Some ''ethereum,bitcoin'', stockSymbolsParam = None,
              commoditySymbolsParam = None \<rparr>
   \<and> loader net_mixed hnet_ok 1000000000
        \<lparr> cryptoIdsParam = Some ''ethereum,bitcoin'', stockSymbolsParam = None,
          commoditySymbolsParam = None \<rparr>
       = (\<lparr> currentPrices = [(''ethereum'', JObj [(''usd'', JNum 3000)]),
                               (''bitcoin'', JObj [(''usd'', JNum 50000)])],
            chartData = [\<lparr> entry_date = Some (JNum 86400000), entry_value = Some (JNum 100) \<rparr>,
                         \<lparr> entry_date = Some (JNum 172800000),
                           entry_value = Some (JNum 200) \<rparr>],
            chartAssetName = ''ethereum'' \<rparr>, 200)
   \<and> effect2 [ethereum1, bitcoin2] idle
        (Some \<lparr> currentPrices = [(''ethereum'', JObj [(''usd'', JNum 3000)]),
                                   (''bitcoin'', JObj [(''usd'', JNum 50000)])],
                chartData = [\<lparr> entry_date = Some (JNum 86400000),
                               entry_value = Some (JNum 100) \<rparr>,
                             \<lparr> entry_date = Some (JNum 172800000),
                               entry_value = Some (JNum 200) \<rparr>],
                chartAssetName = ''ethereum'' \<rparr>) ''N/A''
     = Some \<lparr> cryptoIdsParam = Some ''ethereum,bitcoin'', stockSymbolsParam = None,
              commoditySymbolsParam = None \<rparr>"
proof -
  have first: "effect2 [ethereum1, bitcoin2] idle None ''N/A''
     = Some \<lparr> cryptoIdsParam = Some ''ethereum,bitcoin'', stockSymbolsParam = None,
              commoditySymbolsParam = None \<rparr>"
    by (simp add: effect2_def ethereum1_def bitcoin2_def Let_def)
  have run: "loader net_mixed hnet_ok 1000000000
        \<lparr> cryptoIdsParam = Some ''ethereum,bitcoin'', stockSymbolsParam = None,
          commoditySymbolsParam = None \<rparr>
       = (\<lparr> currentPrices = [(''ethereum'', JObj [(''usd'', JNum 3000)]),
                               (''bitcoin'', JObj [(''usd'', JNum 50000)])],
            chartData = [\<lparr> entry_date = Some (JNum 86400000), entry_value = Some (JNum 100) \<rparr>,
                         \<lparr> entry_date = Some (JNum 172800000),
                           entry_value = Some (JNum 200) \<rparr>],
            chartAssetName = ''ethereum'' \<rparr>, 200)"
    by (simp add: eval_defs isWhiteSpace_def net_mixed_def hnet_ok_def)
  have again: "effect2 [ethereum1, bitcoin2] idle
        (Some \<lparr> currentPrices = [(''ethereum'', JObj [(''usd'', JNum 3000)]),
                                   (''bitcoin'', JObj [(''usd'', JNum 50000)])],
                chartData = [\<lparr> entry_date = Some (JNum 86400000),
                               entry_value = Some (JNum 100) \<rparr>,
                             \<lparr> entry_date = Some (JNum 172800000),
                               entry_value = Some (JNum 200) \<rparr>],
                chartAssetName = ''ethereum'' \<rparr>) ''N/A''
     = Some \<lparr> cryptoIdsParam = Some ''ethereum,bitcoin'', stockSymbolsParam = None,
              commoditySymbolsParam = None \<rparr>"
    by (simp add: effect2_def ethereum1_def bitcoin2_def Let_def)
  from first run again show ?thesis by simp
qed


text \<open>With a single crypto holding whose price arrives, the next evaluation issues nothing.\<close>

lemma effect2_up_to_date:
  "loader net_mixed hnet_ok 1000000000
        \<lparr> cryptoIdsParam = Some ''bitcoin'', stockSymbolsParam = None,
          commoditySymbolsParam = None \<rparr>
       = (\<lparr> currentPrices = [(''bitcoin'', JObj [(''usd'', JNum 50000)])],
            chartData = [\<lparr> entry_date = Some (JNum 86400000), entry_value = Some (JNum 100) \<rparr>,
                         \<lparr> entry_date = Some (JNum 172800000),
                           entry_value = Some (JNum 200) \<rparr>],
            chartAssetName = ''bitcoin'' \<rparr>, 200)
   \<and> effect2 [bitcoin2] idle
        (Some \<lparr> currentPrices = [(''bitcoin'', JObj [(''usd'', JNum 50000)])],
                chartData = [\<lparr> entry_date = Some (JNum 86400000),
                               entry_value = Some (JNum 100) \<rparr>,
                             \<lparr> entry_date = Some (JNum 172800000),
                               entry_value = Some (JNum 200) \<rparr>],
                chartAssetName = ''bitcoin'' \<rparr>) ''N/A'' = None"
proof -
  have run: "loader net_mixed hnet_ok 1000000000
        \<lparr> cryptoIdsParam = Some ''bitcoin'', stockSymbolsParam = None,
          commoditySymbolsParam = None \<rparr>
       = (\<lparr> currentPrices = [(''bitcoin'', JObj [(''usd'', JNum 50000)])],
            chartData = [\<lparr> entry_date = Some (JNum 86400000), entry_value = Some (JNum 100) \<rparr>,
                         \<lparr> entry_date = Some (JNum 172800000),
                           entry_value = Some (JNum 200) \<rparr>],
            chartAssetName = ''bitcoin'' \<rparr>, 200)"
    by (simp add: eval_defs isWhiteSpace_def net_mixed_def hnet_ok_def)
  have skip: "effect2 [bitcoin2] idle
        (Some \<lparr> currentPrices = [(''bitcoin'', JObj [(''usd'', JNum 50000)])],
                chartData = [\<lparr> entry_date = Some (JNum 86400000),
                               entry_value = Some (JNum 100) \<rparr>,
                             \<lparr> entry_date = Some (JNum 172800000),
                               entry_value = Some (JNum 200) \<rparr>],
                chartAssetName = ''bitcoin'' \<rparr>) ''N/A'' = None"
    by (simp add: effect2_def bitcoin2_def Let_def)
  from run skip show ?thesis by simp
qed

end
